theory Spec2Isabelle
  imports Complex_Main "HOL-Library.Sublist"
begin

section \<open>Values and records of the Go packages\<close>

text \<open>
  Go strings are byte sequences, so a \<^typ>\<open>string\<close> (a list of 8-bit characters) holds the
  UTF-8 bytes of a Go string. Go's \<^verbatim>\<open>int\<close> is modelled by \<^typ>\<open>int\<close>: the code only
  compares such numbers with zero and with each other, it never does arithmetic on them.
  A \<^verbatim>\<open>time.Time\<close> is the number of nanoseconds on the clock, a \<^verbatim>\<open>time.Duration\<close>
  a number of nanoseconds. Every call of \<^verbatim>\<open>time.Now()\<close> becomes a parameter \<open>now\<close> of
  the operation that makes it.
\<close>

type_synonym time = int

definition Minute :: int where
  "Minute = 60 * 1000000000"

text \<open>internal/github: the PR and Comment structs.\<close>

record PR =
  pr_Number :: int
  pr_Title :: string
  pr_Author :: string
  pr_Status :: string
  pr_URL :: string
  pr_Repository :: string

record Comment =
  c_Author :: string
  c_Body :: string
  c_Timestamp :: string
  c_Type :: string
  c_Path :: string
  c_Line :: int

text \<open>
  A value of Go's \<^verbatim>\<open>any\<close> as it occurs in the argument and payload maps: what
  \<^verbatim>\<open>encoding/json\<close> decodes (null, string, float64, bool, array, object), an \<^verbatim>\<open>int\<close>
  (the handler stores one under \<^verbatim>\<open>pr_number\<close>), and the two slices the handler puts
  into payloads. A float64 that comes from JSON is finite, hence a rational number.
\<close>

datatype any =
    VNil
  | VString string
  | VFloat64 rat
  | VInt int
  | VBool bool
  | VArray "any list"
  | VObject "(string \<times> any) list"
  | VPRs "PR list"
  | VComments "Comment list"

type_synonym args = "string \<rightharpoonup> any"

section \<open>internal/store: MemoryStore\<close>

record Message =
  Role :: string
  Content :: string

record PRRef =
  Number :: int
  Repository :: string

record LastPRsCache =
  PRs :: "PRRef list"
  lp_UpdatedAt :: time

record PendingIntent =
  pi_Type :: string
  pi_Args :: args
  pi_UpdatedAt :: time

record MemoryStore =
  sessions :: "string \<rightharpoonup> Message list"
  maxMessages :: int
  oauthStateBySession :: "string \<rightharpoonup> string"
  usernameBySession :: "string \<rightharpoonup> string"
  sessionByOAuthState :: "string \<rightharpoonup> string"
  lastPRsBySession :: "string \<rightharpoonup> LastPRsCache"
  pendingBySession :: "string \<rightharpoonup> PendingIntent"

definition NewMemoryStore :: "int \<Rightarrow> MemoryStore" where
  "NewMemoryStore n =
     \<lparr> sessions = Map.empty, maxMessages = n, oauthStateBySession = Map.empty,
       usernameBySession = Map.empty, sessionByOAuthState = Map.empty,
       lastPRsBySession = Map.empty, pendingBySession = Map.empty \<rparr>"

text \<open>Reading a Go map of slices or strings at a missing key gives the zero value.\<close>

definition msgsOf :: "MemoryStore \<Rightarrow> string \<Rightarrow> Message list" where
  "msgsOf m sessionID = (case sessions m sessionID of None \<Rightarrow> [] | Some msgs \<Rightarrow> msgs)"

definition strAt :: "(string \<rightharpoonup> string) \<Rightarrow> string \<Rightarrow> string" where
  "strAt mp k = (case mp k of None \<Rightarrow> [] | Some v \<Rightarrow> v)"

text \<open>
  \<^verbatim>\<open>trimLocked\<close>: no bound when \<^verbatim>\<open>maxMessages <= 0\<close>; otherwise a history longer than
  the bound is replaced by \<^verbatim>\<open>msgs[len(msgs)-maxMessages:]\<close>.
\<close>

definition trimLocked :: "MemoryStore \<Rightarrow> string \<Rightarrow> MemoryStore" where
  "trimLocked m sessionID =
     (if maxMessages m \<le> 0 then m
      else let msgs = msgsOf m sessionID in
        if int (length msgs) > maxMessages m
        then m\<lparr>sessions := (sessions m)(sessionID \<mapsto>
                 drop (nat (int (length msgs) - maxMessages m)) msgs)\<rparr>
        else m)"

definition Append :: "MemoryStore \<Rightarrow> string \<Rightarrow> Message \<Rightarrow> MemoryStore" where
  "Append m sessionID msg =
     trimLocked (m\<lparr>sessions := (sessions m)(sessionID \<mapsto> msgsOf m sessionID @ [msg])\<rparr>)
       sessionID"

definition Get :: "MemoryStore \<Rightarrow> string \<Rightarrow> Message list" where
  "Get m sessionID = msgsOf m sessionID"

subsection \<open>OAuth helpers\<close>

definition SetOAuthState :: "MemoryStore \<Rightarrow> string \<Rightarrow> string \<Rightarrow> MemoryStore" where
  "SetOAuthState m sessionID state =
     m\<lparr>oauthStateBySession := (oauthStateBySession m)(sessionID \<mapsto> state),
       sessionByOAuthState := (sessionByOAuthState m)(state \<mapsto> sessionID)\<rparr>"

definition GetOAuthState :: "MemoryStore \<Rightarrow> string \<Rightarrow> string" where
  "GetOAuthState m sessionID = strAt (oauthStateBySession m) sessionID"

definition ClearOAuthState :: "MemoryStore \<Rightarrow> string \<Rightarrow> MemoryStore" where
  "ClearOAuthState m sessionID =
     (case oauthStateBySession m sessionID of
        Some st \<Rightarrow>
          m\<lparr>sessionByOAuthState := (sessionByOAuthState m)(st := None),
            oauthStateBySession := (oauthStateBySession m)(sessionID := None)\<rparr>
      | None \<Rightarrow> m)"

definition SetUsername :: "MemoryStore \<Rightarrow> string \<Rightarrow> string \<Rightarrow> MemoryStore" where
  "SetUsername m sessionID username =
     m\<lparr>usernameBySession := (usernameBySession m)(sessionID \<mapsto> username)\<rparr>"

definition GetUsername :: "MemoryStore \<Rightarrow> string \<Rightarrow> string" where
  "GetUsername m sessionID = strAt (usernameBySession m) sessionID"

definition GetSessionByOAuthState :: "MemoryStore \<Rightarrow> string \<Rightarrow> string" where
  "GetSessionByOAuthState m state = strAt (sessionByOAuthState m) state"

subsection \<open>Slot and PR caches with a time to live\<close>

definition lastPRsTTL :: int where
  "lastPRsTTL = 7 * Minute"

definition pendingTTL :: int where
  "pendingTTL = 7 * Minute"

definition SetLastPRs :: "MemoryStore \<Rightarrow> string \<Rightarrow> PRRef list \<Rightarrow> time \<Rightarrow> MemoryStore" where
  "SetLastPRs m sessionID prs now =
     m\<lparr>lastPRsBySession := (lastPRsBySession m)(sessionID \<mapsto>
          \<lparr>PRs = prs, lp_UpdatedAt = now\<rparr>)\<rparr>"

text \<open>
  \<^verbatim>\<open>GetLastPRs\<close> takes the write lock: an entry older than the TTL
  (\<^verbatim>\<open>time.Since(cache.UpdatedAt) > lastPRsTTL\<close>) is deleted by the read. The result is
  the store after the call, the slice and the \<^verbatim>\<open>bool\<close>.
\<close>

definition GetLastPRs :: "MemoryStore \<Rightarrow> string \<Rightarrow> time \<Rightarrow> MemoryStore \<times> PRRef list \<times> bool" where
  "GetLastPRs m sessionID now =
     (case lastPRsBySession m sessionID of
        None \<Rightarrow> (m, [], False)
      | Some cache \<Rightarrow>
          if now - lp_UpdatedAt cache > lastPRsTTL
          then (m\<lparr>lastPRsBySession := (lastPRsBySession m)(sessionID := None)\<rparr>, [], False)
          else (m, PRs cache, True))"

definition SetPendingIntent :: "MemoryStore \<Rightarrow> string \<Rightarrow> string \<Rightarrow> args \<Rightarrow> time \<Rightarrow> MemoryStore" where
  "SetPendingIntent m sessionID typ as now =
     m\<lparr>pendingBySession := (pendingBySession m)(sessionID \<mapsto>
          \<lparr>pi_Type = typ, pi_Args = as, pi_UpdatedAt = now\<rparr>)\<rparr>"

definition GetPendingIntent ::
  "MemoryStore \<Rightarrow> string \<Rightarrow> time \<Rightarrow> MemoryStore \<times> string \<times> args \<times> bool" where
  "GetPendingIntent m sessionID now =
     (case pendingBySession m sessionID of
        None \<Rightarrow> (m, [], Map.empty, False)
      | Some p \<Rightarrow>
          if now - pi_UpdatedAt p > pendingTTL
          then (m\<lparr>pendingBySession := (pendingBySession m)(sessionID := None)\<rparr>,
                [], Map.empty, False)
          else (m, pi_Type p, pi_Args p, True))"

definition ClearPendingIntent :: "MemoryStore \<Rightarrow> string \<Rightarrow> MemoryStore" where
  "ClearPendingIntent m sessionID =
     m\<lparr>pendingBySession := (pendingBySession m)(sessionID := None)\<rparr>"

section \<open>Library functions of Go that the handlers call\<close>

subsection \<open>strings.TrimSpace\<close>

text \<open>
  \<^verbatim>\<open>strings.TrimSpace\<close> removes the leading and the trailing runes for which
  \<^verbatim>\<open>unicode.IsSpace\<close> holds: U+0009 to U+000D, U+0020, U+0085, U+00A0, U+1680, U+2000 to
  U+200A, U+2028, U+2029, U+202F, U+205F and U+3000. On the UTF-8 bytes these are the one
  byte, two byte and three byte sequences below; any other byte, also one that is not
  valid UTF-8, is not white space.
\<close>

definition space1 :: "char \<Rightarrow> bool" where
  "space1 a = (a \<in> {CHR 0x09, CHR 0x0A, CHR 0x0B, CHR 0x0C, CHR 0x0D, CHR 0x20})"

definition space2 :: "char \<Rightarrow> char \<Rightarrow> bool" where
  "space2 a b = (a = CHR 0xC2 \<and> b \<in> {CHR 0x85, CHR 0xA0})"

definition space3 :: "char \<Rightarrow> char \<Rightarrow> char \<Rightarrow> bool" where
  "space3 a b c =
     ((a = CHR 0xE1 \<and> b = CHR 0x9A \<and> c = CHR 0x80) \<or>
      (a = CHR 0xE2 \<and> b = CHR 0x80 \<and>
         c \<in> {CHR 0x80, CHR 0x81, CHR 0x82, CHR 0x83, CHR 0x84, CHR 0x85, CHR 0x86, CHR 0x87,
              CHR 0x88, CHR 0x89, CHR 0x8A, CHR 0xA8, CHR 0xA9, CHR 0xAF}) \<or>
      (a = CHR 0xE2 \<and> b = CHR 0x81 \<and> c = CHR 0x9F) \<or>
      (a = CHR 0xE3 \<and> b = CHR 0x80 \<and> c = CHR 0x80))"

text \<open>
  The number of bytes of the white space rune a string starts with, 0 when it starts with
  none. With \<open>rv\<close> the string is read backwards, so the bytes of a rune come last byte
  first.
\<close>

definition spaceLen :: "bool \<Rightarrow> string \<Rightarrow> nat" where
  "spaceLen rv s =
     (case s of
        [] \<Rightarrow> 0
      | a # s1 \<Rightarrow>
          if space1 a then 1
          else (case s1 of
                  [] \<Rightarrow> 0
                | b # s2 \<Rightarrow>
                    if (if rv then space2 b a else space2 a b) then 2
                    else (case s2 of
                            [] \<Rightarrow> 0
                          | c # s3 \<Rightarrow>
                              if (if rv then space3 c b a else space3 a b c) then 3 else 0)))"

function dropSpace :: "bool \<Rightarrow> string \<Rightarrow> string" where
  "dropSpace rv s = (if spaceLen rv s = 0 then s else dropSpace rv (drop (spaceLen rv s) s))"
  by pat_completeness auto
termination
  by (relation "measure (\<lambda>(rv, s). length s)") (auto simp: spaceLen_def split: list.splits if_splits)

definition TrimSpace :: "string \<Rightarrow> string" where
  "TrimSpace s = rev (dropSpace True (rev (dropSpace False s)))"

subsection \<open>strings.Contains, strings.Join, strings.ToLower, the verb %d\<close>

fun Contains :: "string \<Rightarrow> string \<Rightarrow> bool" where
  "Contains [] substr = (substr = [])"
| "Contains (c # s) substr = (prefix substr (c # s) \<or> Contains s substr)"

fun Join :: "string list \<Rightarrow> string \<Rightarrow> string" where
  "Join [] sep = []"
| "Join [e] sep = e"
| "Join (e # es) sep = e @ sep @ Join es sep"

text \<open>
  \<^verbatim>\<open>strings.ToLower\<close> on the ASCII letters. Bytes from 0x80 on are left as they are; Go
  would also map the upper case letters outside ASCII. The only string the handler
  lowers is the merge method, and the theorems that reach it assume it is ASCII
  (\<open>argsInModel\<close> below), where this is what Go computes.
\<close>

definition lowerChar :: "char \<Rightarrow> char" where
  "lowerChar c =
     (if (65 :: nat) \<le> of_char c \<and> of_char c \<le> (90 :: nat)
      then char_of (of_char c + (32 :: nat)) else c)"

definition ToLower :: "string \<Rightarrow> string" where
  "ToLower s = map lowerChar s"

fun digits :: "nat \<Rightarrow> string" where
  "digits n =
     (if n < 10 then [''0123456789'' ! n]
      else digits (n div 10) @ [''0123456789'' ! (n mod 10)])"

definition itoa :: "int \<Rightarrow> string" where
  "itoa n = (if n < 0 then ''-'' @ digits (nat (- n)) else digits (nat n))"

text \<open>
  The conversion \<^verbatim>\<open>int(n)\<close> of a float64 drops the fraction (rounds toward zero). Go
  leaves the result to the implementation when the value does not fit the integer type;
  the model keeps the mathematical value there, and the theorems that read a PR number
  assume that it fits (\<open>argsInModel\<close> below).
\<close>

definition int_of_float64 :: "rat \<Rightarrow> int" where
  "int_of_float64 n = (if n < 0 then \<lceil>n\<rceil> else \<lfloor>n\<rfloor>)"

section \<open>The collaborators of the server\<close>

text \<open>internal/config: the fields of \<^verbatim>\<open>Config\<close> that the modelled handlers read.\<close>

record Config =
  cfg_GitHubToken :: string
  cfg_DefaultRepoOwner :: string
  cfg_FrontendURL :: string

text \<open>internal/store: the rows of the database store and the token of the file store.\<close>

record GitHubAuth =
  ga_SessionID :: string
  ga_GitHubToken :: string
  ga_GitHubOwner :: string

record GitHubToken =
  AccessToken :: string
  TokenType :: string
  Scope :: string

text \<open>
  internal/github: the methods of the interface \<^verbatim>\<open>MCPClient\<close> that the chat turn calls.
  A call that returns a non-nil \<^verbatim>\<open>error\<close> is \<open>Inl\<close> of its text (for
  \<^verbatim>\<open>MergePR\<close>, \<open>Some\<close> of it).
\<close>

record MCPClient =
  ListPRsForReview :: "string \<Rightarrow> string + PR list"
  ListUserPRs :: "string \<Rightarrow> string + PR list"
  GetPRComments :: "string \<Rightarrow> string \<Rightarrow> int \<Rightarrow> string + Comment list"
  MergePR :: "string \<Rightarrow> string \<Rightarrow> int \<Rightarrow> string \<Rightarrow> string option"

record ClassifiedIntent =
  ci_Type :: string
  ci_Args :: args
  ci_Confidence :: rat
  ci_Message :: string

text \<open>
  The \<^verbatim>\<open>Server\<close> struct without the router and the OpenAI client. The database store is
  what \<^verbatim>\<open>GetGitHubAuth\<close> answers for a session (an error, no row, or a row), the token
  store what \<^verbatim>\<open>Read\<close> answers, the classifier what \<^verbatim>\<open>ClassifyChat\<close> answers for a
  transcript (\<open>None\<close> when it fails). A nil pointer is \<open>None\<close>.
\<close>

record Server =
  cfg :: Config
  databaseStore :: "(string \<Rightarrow> string + GitHubAuth option) option"
  tokenStore :: "string + GitHubToken option"
  mcp :: MCPClient
  intent :: "(Message list \<Rightarrow> ClassifiedIntent option) option"
  oauthCfg :: bool

text \<open>
  The instants at which a turn reads the clock: in the first \<^verbatim>\<open>GetPendingIntent\<close>, in
  the lookup inside the branch (\<^verbatim>\<open>GetLastPRs\<close>, or the second \<^verbatim>\<open>GetPendingIntent\<close> of
  the clarify branch), and in the write (\<^verbatim>\<open>SetPendingIntent\<close> or \<^verbatim>\<open>SetLastPRs\<close>).
\<close>

record Clock =
  t_pending :: time
  t_lookup :: time
  t_write :: time

text \<open>
  What a turn hands back: the store after it, the three results of \<^verbatim>\<open>handleWithArgs\<close>,
  and the call it made to the action provider, if any, with the store as it was when the
  call was made.
\<close>

datatype ProviderCall =
    CallListUserPRs string
  | CallListPRsForReview string
  | CallGetPRComments string string int
  | CallMergePR string string int string

record IntentResponse =
  ir_Type :: string
  ir_Payload :: "args option"

record Outcome =
  out_store :: MemoryStore
  out_reply :: string
  out_intent :: "IntentResponse option"
  out_ok :: bool
  out_call :: "(ProviderCall \<times> MemoryStore) option"

definition providerFailed :: "MCPClient \<Rightarrow> ProviderCall \<Rightarrow> bool" where
  "providerFailed cl c =
     (case c of
        CallListUserPRs token \<Rightarrow> isl (ListUserPRs cl token)
      | CallListPRsForReview token \<Rightarrow> isl (ListPRsForReview cl token)
      | CallGetPRComments token repo prNumber \<Rightarrow> isl (GetPRComments cl token repo prNumber)
      | CallMergePR token repo prNumber method \<Rightarrow> MergePR cl token repo prNumber method \<noteq> None)"

section \<open>internal/server: handleWithArgs\<close>

definition getGitHubToken :: "Server \<Rightarrow> string \<Rightarrow> string" where
  "getGitHubToken srv sessionID =
     (let fromDB =
        (case databaseStore srv of
           None \<Rightarrow> None
         | Some getGitHubAuth \<Rightarrow>
             (case getGitHubAuth sessionID of
                Inr (Some auth) \<Rightarrow>
                  if TrimSpace (ga_GitHubToken auth) \<noteq> [] then Some (ga_GitHubToken auth)
                  else None
              | _ \<Rightarrow> None))
      in case fromDB of
           Some token \<Rightarrow> token
         | None \<Rightarrow>
             (case tokenStore srv of
                Inr (Some token) \<Rightarrow>
                  if TrimSpace (AccessToken token) \<noteq> [] then AccessToken token
                  else cfg_GitHubToken (cfg srv)
              | _ \<Rightarrow> cfg_GitHubToken (cfg srv)))"

subsection \<open>The fixed replies of the handlers\<close>

definition replyNeedAuthList :: string where
  "replyNeedAuthList =
     ''Whoops! I need your GitHub connection to fetch your pull requests. Let's connect GitHub first.''"

definition replyListFailed :: string where
  "replyListFailed =
     ''I couldn't fetch your pull requests from GitHub right now. This might be a temporary issue with GitHub's API. Try again in a moment?''"

definition replyNeedAuthComments :: string where
  "replyNeedAuthComments =
     ''I need your GitHub connection to fetch PR comments. Let's connect GitHub first.''"

definition replyCommentsFailed :: string where
  "replyCommentsFailed =
     ''I couldn't retrieve the PR comments from GitHub. This could be a temporary GitHub API issue or the PR might not exist. Mind trying again?''"

definition replyNeedAuthMerge :: string where
  "replyNeedAuthMerge =
     ''I need your GitHub connection to merge pull requests. Let's connect GitHub first.''"

definition replyMergeFailed :: string where
  "replyMergeFailed =
     ''I couldn't merge the pull request on GitHub. This could be due to failing checks, merge conflicts, or insufficient permissions. Would you like me to check the PR status?''"

definition replyClarifyDefault :: string where
  "replyClarifyDefault =
     ''Mind giving me a tiny bit more detail? I promise I listen better than your rubber duck.''"

definition replyConnectGitHub :: string where
  "replyConnectGitHub =
     ''Please connect your GitHub account to use this application. This service helps you manage GitHub pull requests - fetching, listing, merging, and viewing PR comments.''"

definition replyTrouble :: string where
  "replyTrouble =
     ''I'm having trouble understanding your request right now. Please try again.''"

text \<open>The dash of the next reply is U+2014, three bytes in UTF-8.\<close>

definition replyUnknownDefault :: string where
  "replyUnknownDefault =
     ''I haven't learned that trick yet '' @ [CHR 0xE2, CHR 0x80, CHR 0x94]
       @ '' but I'm practicing!''"

text \<open>
  The return statements of the handler that answer with a reply and an
  \<^verbatim>\<open>IntentResponse\<close> that has a type only.
\<close>

definition respond :: "MemoryStore \<Rightarrow> string \<Rightarrow> string \<Rightarrow> Outcome" where
  "respond m msg typ =
     \<lparr> out_store = m, out_reply = msg,
       out_intent = Some \<lparr>ir_Type = typ, ir_Payload = None\<rparr>,
       out_ok = True, out_call = None \<rparr>"

text \<open>
  The head of \<^verbatim>\<open>handleWithArgs\<close>: the classified arguments are copied, and a pending
  intent that is found takes part. \<^verbatim>\<open>fillMissing\<close> is the loop that copies the pending
  arguments whose key the new map does not have.
\<close>

definition fillMissing :: "args \<Rightarrow> args \<Rightarrow> args" where
  "fillMissing mergedArgs pArgs =
     (\<lambda>k. case mergedArgs k of Some v \<Rightarrow> Some v | None \<Rightarrow> pArgs k)"

definition mergePending ::
  "MemoryStore \<Rightarrow> string \<Rightarrow> ClassifiedIntent \<Rightarrow> time \<Rightarrow> MemoryStore \<times> string \<times> args" where
  "mergePending m sessionID ci now =
     (let targetType = ci_Type ci; mergedArgs = ci_Args ci in
      case GetPendingIntent m sessionID now of
        (m1, pType, pArgs, ok) \<Rightarrow>
          if ok then
            let targetType = (if targetType = ''clarify'' \<and> pType \<noteq> [] then pType
                              else targetType)
            in if targetType = pType \<and> targetType \<noteq> []
               then (m1, targetType, fillMissing mergedArgs pArgs)
               else (m1, targetType, mergedArgs)
          else (m1, targetType, mergedArgs))"

text \<open>The type assertions on the merged arguments.\<close>

definition stringArg :: "args \<Rightarrow> string \<Rightarrow> string" where
  "stringArg mergedArgs k = (case mergedArgs k of Some (VString v) \<Rightarrow> v | _ \<Rightarrow> [])"

definition prNumberOf :: "args \<Rightarrow> int" where
  "prNumberOf mergedArgs =
     (case mergedArgs ''pr_number'' of
        Some (VFloat64 n) \<Rightarrow> int_of_float64 n
      | Some (VInt n2) \<Rightarrow> n2
      | _ \<Rightarrow> 0)"

definition reviewIDOf :: "args \<Rightarrow> int" where
  "reviewIDOf mergedArgs =
     (case mergedArgs ''review_id'' of Some (VFloat64 rid) \<Rightarrow> int_of_float64 rid | _ \<Rightarrow> 0)"

text \<open>
  A bare repository name gets an owner: the user name of the session, else the default
  owner of the configuration (the same lines in both branches).
\<close>

definition ownerRepo :: "Server \<Rightarrow> MemoryStore \<Rightarrow> string \<Rightarrow> string \<Rightarrow> string" where
  "ownerRepo srv m sessionID repo =
     (if repo \<noteq> [] \<and> \<not> Contains repo ''/'' then
        let owner = TrimSpace (GetUsername m sessionID);
            owner = (if owner = [] then TrimSpace (cfg_DefaultRepoOwner (cfg srv)) else owner)
        in if owner \<noteq> [] then owner @ ''/'' @ repo else repo
      else repo)"

text \<open>
  The repository of a bare PR number, from the PRs listed last (the same lines in both
  branches): \<open>Inl\<close> of the candidates when more than one listed PR has the number, else
  \<open>Inr\<close> of the repository to go on with.
\<close>

definition matchesOf :: "PRRef list \<Rightarrow> int \<Rightarrow> string list" where
  "matchesOf refs prNumber = map Repository (filter (\<lambda>r. Number r = prNumber) refs)"

definition autoResolve ::
  "MemoryStore \<Rightarrow> string \<Rightarrow> string \<Rightarrow> int \<Rightarrow> time \<Rightarrow> MemoryStore \<times> (string list + string)" where
  "autoResolve m sessionID repo prNumber now =
     (if repo = [] \<and> prNumber > 0 then
        case GetLastPRs m sessionID now of
          (m1, refs, ok) \<Rightarrow>
            if ok then
              let matches = matchesOf refs prNumber in
              if length matches = 1 then (m1, Inr (matches ! 0))
              else if length matches > 1 then (m1, Inl matches)
              else (m1, Inr repo)
            else (m1, Inr repo)
      else (m, Inr repo))"

definition didYouMean :: "int \<Rightarrow> string list \<Rightarrow> string" where
  "didYouMean prNumber matches =
     ''Did you mean PR '' @ itoa prNumber @ '' in '' @ Join matches '' or '' @ ''?''"

subsection \<open>The branch of the two listing intents\<close>

definition IntentListMine :: string where
  "IntentListMine = ''list_prs_mine''"

definition IntentListReview :: string where
  "IntentListReview = ''list_prs_review''"

definition prItem :: "nat \<times> PR \<Rightarrow> string" where
  "prItem ip =
     (case ip of
        (i, p) \<Rightarrow>
          (if i = 0 then [] else ''; '') @ ''#'' @ itoa (pr_Number p) @ '' '' @ pr_Title p
            @ '' ('' @ pr_Repository p @ '')'')"

definition formatPRListReply :: "string \<Rightarrow> PR list \<Rightarrow> string" where
  "formatPRListReply kind prs =
     (if length prs = 0 then
        (if kind = IntentListReview
         then ''You have no GitHub pull requests to review at the moment.''
         else ''You have no open pull requests on GitHub.'')
      else
        let mx = (if length prs < 5 then length prs else 5);
            b = (if kind = IntentListReview
                 then ''You have '' @ itoa (int (length prs))
                        @ '' GitHub pull request(s) to review. ''
                 else ''You have '' @ itoa (int (length prs)) @ '' GitHub pull request(s). '');
            b = b @ concat (map prItem (enumerate 0 (take mx prs)))
        in if length prs > mx
           then b @ ''; and '' @ itoa (int (length prs) - int mx) @ '' more.''
           else b)"

definition handleListPRs ::
  "Server \<Rightarrow> Clock \<Rightarrow> MemoryStore \<Rightarrow> string \<Rightarrow> string \<Rightarrow> Outcome" where
  "handleListPRs srv clk m sessionID targetType =
     (let token = getGitHubToken srv sessionID in
      if TrimSpace token = [] then
        respond m
          replyNeedAuthList
          ''require_github_auth''
      else
        let made = (if targetType = ''list_prs_mine'' then CallListUserPRs token
                    else CallListPRsForReview token)
        in case (if targetType = ''list_prs_mine'' then ListUserPRs (mcp srv) token
                 else ListPRsForReview (mcp srv) token) of
             Inl err \<Rightarrow>
               (respond m
                  replyListFailed
                  ''error'')\<lparr>out_call := Some (made, m)\<rparr>
           | Inr prs \<Rightarrow>
               let kind = (if targetType = ''list_prs_review'' then IntentListReview
                           else IntentListMine);
                   m1 = (if length prs > 0
                         then SetLastPRs m sessionID
                                (map (\<lambda>p. \<lparr>Number = pr_Number p, Repository = pr_Repository p\<rparr>)
                                   prs)
                                (t_write clk)
                         else m);
                   m2 = ClearPendingIntent m1 sessionID;
                   listKind = (if kind = IntentListReview then ''review'' else ''mine'')
               in \<lparr> out_store = m2, out_reply = formatPRListReply kind prs,
                    out_intent = Some \<lparr>ir_Type = ''show_prs'',
                      ir_Payload = Some [''prs'' \<mapsto> VPRs prs, ''kind'' \<mapsto> VString listKind]\<rparr>,
                    out_ok = True, out_call = Some (made, m) \<rparr>)"

subsection \<open>The branch of get_pr_comments\<close>

definition handleGetPRComments ::
  "Server \<Rightarrow> Clock \<Rightarrow> MemoryStore \<Rightarrow> string \<Rightarrow> args \<Rightarrow> Outcome" where
  "handleGetPRComments srv clk m sessionID mergedArgs =
     (let repo = stringArg mergedArgs ''repo'';
          prNumber = prNumberOf mergedArgs;
          repo = TrimSpace repo;
          repo = ownerRepo srv m sessionID repo;
          repo = TrimSpace repo
      in case autoResolve m sessionID repo prNumber (t_lookup clk) of
           (m1, Inl matches) \<Rightarrow>
             respond
               (SetPendingIntent m1 sessionID ''get_pr_comments''
                  (mergedArgs(''pr_number'' \<mapsto> VInt prNumber)) (t_write clk))
               (didYouMean prNumber matches) ''clarify''
         | (m1, Inr repo) \<Rightarrow>
             let repo = TrimSpace repo in
             if repo = [] \<and> prNumber \<le> 0 then
               respond (SetPendingIntent m1 sessionID ''get_pr_comments'' mergedArgs (t_write clk))
                 ''Which repository and PR number should I look at?'' ''clarify''
             else if repo = [] then
               respond (SetPendingIntent m1 sessionID ''get_pr_comments'' mergedArgs (t_write clk))
                 (''Which repo is PR '' @ itoa prNumber @ '' in?'') ''clarify''
             else if prNumber \<le> 0 then
               respond (SetPendingIntent m1 sessionID ''get_pr_comments'' mergedArgs (t_write clk))
                 (''Which PR number in '' @ repo @ ''?'') ''clarify''
             else
               let token = getGitHubToken srv sessionID in
               if TrimSpace token = [] then
                 respond m1
                   replyNeedAuthComments
                   ''require_github_auth''
               else
                 case GetPRComments (mcp srv) token repo prNumber of
                   Inl err \<Rightarrow>
                     (respond m1
                        replyCommentsFailed
                        ''error'')\<lparr>out_call := Some (CallGetPRComments token repo prNumber, m1)\<rparr>
                 | Inr comments \<Rightarrow>
                     \<lparr> out_store = ClearPendingIntent m1 sessionID,
                       out_reply = ''I found '' @ itoa (int (length comments))
                         @ '' comment(s) on GitHub pull request '' @ repo @ ''#''
                         @ itoa prNumber @ ''.'',
                       out_intent = Some \<lparr>ir_Type = ''show_comments'',
                         ir_Payload = Some [''repo'' \<mapsto> VString repo,
                           ''prNumber'' \<mapsto> VInt prNumber, ''comments'' \<mapsto> VComments comments]\<rparr>,
                       out_ok = True,
                       out_call = Some (CallGetPRComments token repo prNumber, m1) \<rparr>)"

subsection \<open>The branch of merge_pr\<close>

text \<open>The merge method: trimmed, in lower case, and \<^verbatim>\<open>merge\<close> when that is empty.\<close>

definition mergeMethod :: "args \<Rightarrow> string" where
  "mergeMethod mergedArgs =
     (let method = stringArg mergedArgs ''merge_method'';
          method = ToLower (TrimSpace method)
      in if method = [] then ''merge'' else method)"

definition handleMergePR ::
  "Server \<Rightarrow> Clock \<Rightarrow> MemoryStore \<Rightarrow> string \<Rightarrow> args \<Rightarrow> Outcome" where
  "handleMergePR srv clk m sessionID mergedArgs =
     (let repo = stringArg mergedArgs ''repo'';
          prNumber = prNumberOf mergedArgs;
          method = mergeMethod mergedArgs;
          repo = TrimSpace repo;
          repo = ownerRepo srv m sessionID repo
      in case autoResolve m sessionID repo prNumber (t_lookup clk) of
           (m1, Inl matches) \<Rightarrow>
             respond
               (SetPendingIntent m1 sessionID ''merge_pr''
                  (mergedArgs(''pr_number'' \<mapsto> VInt prNumber)) (t_write clk))
               (didYouMean prNumber matches) ''clarify''
         | (m1, Inr repo) \<Rightarrow>
             if repo = [] \<and> prNumber \<le> 0 then
               respond (SetPendingIntent m1 sessionID ''merge_pr'' mergedArgs (t_write clk))
                 ''Which repo and PR should I merge?'' ''clarify''
             else if repo = [] then
               respond (SetPendingIntent m1 sessionID ''merge_pr'' mergedArgs (t_write clk))
                 (''Which repo is PR '' @ itoa prNumber @ '' in?'') ''clarify''
             else if prNumber \<le> 0 then
               respond (SetPendingIntent m1 sessionID ''merge_pr'' mergedArgs (t_write clk))
                 (''Which PR number in '' @ repo @ ''?'') ''clarify''
             else
               let token = getGitHubToken srv sessionID in
               if TrimSpace token = [] then
                 respond m1
                   replyNeedAuthMerge
                   ''require_github_auth''
               else
                 case MergePR (mcp srv) token repo prNumber method of
                   Some err \<Rightarrow>
                     (respond m1
                        replyMergeFailed
                        ''error'')\<lparr>out_call := Some (CallMergePR token repo prNumber method, m1)\<rparr>
                 | None \<Rightarrow>
                     \<lparr> out_store = ClearPendingIntent m1 sessionID,
                       out_reply = ''Successfully merged GitHub pull request '' @ repo @ ''#''
                         @ itoa prNumber @ '' using '' @ method @ '' method.'',
                       out_intent = Some \<lparr>ir_Type = ''merged'',
                         ir_Payload = Some [''repo'' \<mapsto> VString repo,
                           ''prNumber'' \<mapsto> VInt prNumber, ''method'' \<mapsto> VString method]\<rparr>,
                       out_ok = True,
                       out_call = Some (CallMergePR token repo prNumber method, m1) \<rparr>)"

subsection \<open>The branches of clarify, not_implemented and unknown\<close>

definition handleClarify ::
  "Clock \<Rightarrow> MemoryStore \<Rightarrow> string \<Rightarrow> ClassifiedIntent \<Rightarrow> args \<Rightarrow> Outcome" where
  "handleClarify clk m sessionID ci mergedArgs =
     (let msg = TrimSpace (ci_Message ci);
          msg = (if msg = []
                 then replyClarifyDefault
                 else msg);
          repo = stringArg mergedArgs ''repo'';
          prNumber = prNumberOf mergedArgs;
          reviewID = reviewIDOf mergedArgs;
          repo = TrimSpace repo;
          payload = Map.empty;
          payload = (if repo \<noteq> [] then payload(''repo'' \<mapsto> VString repo) else payload);
          payload = (if prNumber > 0 then payload(''prNumber'' \<mapsto> VInt prNumber) else payload);
          payload = (if reviewID > 0 then payload(''reviewId'' \<mapsto> VInt reviewID) else payload)
      in case GetPendingIntent m sessionID (t_lookup clk) of
           (m1, pType, pArgs, ok) \<Rightarrow>
             \<lparr> out_store = (if ok \<and> pType \<noteq> []
                            then SetPendingIntent m1 sessionID pType (pArgs ++ payload) (t_write clk)
                            else m1),
               out_reply = msg,
               out_intent = Some \<lparr>ir_Type = ''clarify'', ir_Payload = Some payload\<rparr>,
               out_ok = True, out_call = None \<rparr>)"

definition handleUnknown :: "MemoryStore \<Rightarrow> string \<Rightarrow> ClassifiedIntent \<Rightarrow> Outcome" where
  "handleUnknown m sessionID ci =
     (let msg = TrimSpace (ci_Message ci);
          msg = (if msg = []
                 then replyUnknownDefault
                 else msg)
      in respond (ClearPendingIntent m sessionID) msg ''not_implemented'')"

subsection \<open>handleWithArgs: the merge with the pending intent, then the switch\<close>

definition handleWithArgs ::
  "Server \<Rightarrow> Clock \<Rightarrow> MemoryStore \<Rightarrow> string \<Rightarrow> ClassifiedIntent \<Rightarrow> Outcome" where
  "handleWithArgs srv clk m sessionID ci =
     (case mergePending m sessionID ci (t_pending clk) of
        (m1, targetType, mergedArgs) \<Rightarrow>
          if targetType = ''list_prs_mine'' \<or> targetType = ''list_prs_review''
          then handleListPRs srv clk m1 sessionID targetType
          else if targetType = ''get_pr_comments''
          then handleGetPRComments srv clk m1 sessionID mergedArgs
          else if targetType = ''merge_pr''
          then handleMergePR srv clk m1 sessionID mergedArgs
          else if targetType = ''clarify''
          then handleClarify clk m1 sessionID ci mergedArgs
          else if targetType = ''not_implemented'' \<or> targetType = ''unknown''
          then handleUnknown m1 sessionID ci
          else \<lparr> out_store = m1, out_reply = [], out_intent = None, out_ok = False,
                 out_call = None \<rparr>)"

section \<open>internal/server: the chat endpoint\<close>

record ChatRequest =
  rq_SessionID :: string
  rq_Message :: string
  rq_System :: string

record ChatResponse =
  rs_SessionID :: string
  rs_Reply :: string
  rs_Transcript :: string
  rs_Intent :: "IntentResponse option"

text \<open>
  What a handler writes: \<^verbatim>\<open>writeError\<close> with a status code and a text, a JSON chat
  response, or a redirect.
\<close>

datatype HTTPResponse =
    WriteError nat string
  | WriteJSON ChatResponse
  | Redirect string

definition convertMessages :: "Message list \<Rightarrow> Message list" where
  "convertMessages msgs =
     map (\<lambda>msg. \<lparr>Role = (if Role msg = [] then ''user'' else Role msg), Content = Content msg\<rparr>)
       msgs"

definition failed :: "MemoryStore \<Rightarrow> Outcome" where
  "failed m = \<lparr> out_store = m, out_reply = [], out_intent = None, out_ok = False,
                out_call = None \<rparr>"

definition classifyAndHandle ::
  "Server \<Rightarrow> Clock \<Rightarrow> MemoryStore \<Rightarrow> string \<Rightarrow> string \<Rightarrow> Outcome" where
  "classifyAndHandle srv clk m sessionID message =
     (case intent srv of
        None \<Rightarrow> failed m
      | Some classifyChat \<Rightarrow>
          (case classifyChat (convertMessages (Get m sessionID)) of
             None \<Rightarrow> failed m
           | Some ci \<Rightarrow> handleWithArgs srv clk m sessionID ci))"

text \<open>
  \<^verbatim>\<open>handleChat\<close> after the body has been decoded into \<open>req\<close> and the session id \<open>sid\<close>
  has been read or created. The result is the store after the request and the response
  written.
\<close>

definition handleChat ::
  "Server \<Rightarrow> Clock \<Rightarrow> MemoryStore \<Rightarrow> string \<Rightarrow> ChatRequest \<Rightarrow> MemoryStore \<times> HTTPResponse" where
  "handleChat srv clk m sid req =
     (if TrimSpace (rq_Message req) = [] then (m, WriteError 400 ''message is required'')
      else
        let m = (if rq_System req \<noteq> []
                 then Append m sid \<lparr>Role = ''system'', Content = rq_System req\<rparr> else m);
            m = Append m sid \<lparr>Role = ''user'', Content = rq_Message req\<rparr>;
            token = getGitHubToken srv sid
        in if TrimSpace token = [] then
             (m, WriteJSON \<lparr> rs_SessionID = sid,
                   rs_Reply = replyConnectGitHub,
                   rs_Transcript = [],
                   rs_Intent = Some \<lparr>ir_Type = ''require_github_auth'', ir_Payload = None\<rparr> \<rparr>)
           else
             let out = classifyAndHandle srv clk m sid (rq_Message req) in
             if \<not> out_ok out then
               (out_store out,
                WriteError 500
                  replyTrouble)
             else
               (Append (out_store out) sid \<lparr>Role = ''assistant'', Content = out_reply out\<rparr>,
                WriteJSON \<lparr> rs_SessionID = sid, rs_Reply = out_reply out, rs_Transcript = [],
                  rs_Intent = out_intent out \<rparr>))"

section \<open>internal/server: the GitHub OAuth handshake\<close>

text \<open>
  What the callback gets from outside: the exchange of the code for a token, the user name
  GitHub reports for an access token (empty when the request fails), and whether the
  token could be persisted (in the database or in the token file).
\<close>

record OAuthWorld =
  Exchange :: "string \<Rightarrow> string + GitHubToken"
  fetchGitHubUsername :: "string \<Rightarrow> string"
  persist :: "string \<Rightarrow> string \<Rightarrow> string \<Rightarrow> string option"

text \<open>\<^verbatim>\<open>handleGitHubAuth\<close> with the random state it draws as a parameter.\<close>

definition handleGitHubAuth :: "MemoryStore \<Rightarrow> string \<Rightarrow> string \<Rightarrow> MemoryStore" where
  "handleGitHubAuth m sid state = SetOAuthState m sid state"

definition handleGitHubCallback ::
  "Server \<Rightarrow> OAuthWorld \<Rightarrow> MemoryStore \<Rightarrow> string \<Rightarrow> string \<Rightarrow> MemoryStore \<times> HTTPResponse" where
  "handleGitHubCallback srv world m state code =
     (if \<not> oauthCfg srv then (m, WriteError 400 ''github oauth not configured'')
      else if state = [] \<or> code = [] then (m, WriteError 400 ''missing state or code'')
      else
        let sid = GetSessionByOAuthState m state in
        if sid = [] \<or> GetOAuthState m sid \<noteq> state
        then (m, WriteError 400 ''invalid oauth state'')
        else
          case Exchange world code of
            Inl err \<Rightarrow> (m, WriteError 502 ''token exchange failed'')
          | Inr tok \<Rightarrow>
              let username = fetchGitHubUsername world (AccessToken tok) in
              if username = [] then (m, WriteError 500 ''failed to fetch GitHub username'')
              else
                case persist world sid (AccessToken tok) username of
                  Some err \<Rightarrow>
                    (m, WriteError 500
                          (case databaseStore srv of
                             Some db \<Rightarrow> ''failed to save GitHub auth to database''
                           | None \<Rightarrow> ''token persist failed''))
                | None \<Rightarrow>
                    (ClearOAuthState (SetUsername m sid username) sid,
                     Redirect (cfg_FrontendURL (cfg srv) @ ''?githubAuth=success'')))"

section \<open>Runs of the store and strings without surrounding white space\<close>

text \<open>
  A run of \<^verbatim>\<open>Append\<close> calls, each with its session, and the messages of the run that
  went to one session, in the order of the calls.
\<close>

definition appendAll :: "MemoryStore \<Rightarrow> (string \<times> Message) list \<Rightarrow> MemoryStore" where
  "appendAll m ops = foldl (\<lambda>s op. Append s (fst op) (snd op)) m ops"

definition appended :: "(string \<times> Message) list \<Rightarrow> string \<Rightarrow> Message list" where
  "appended ops sessionID = map snd (filter (\<lambda>op. fst op = sessionID) ops)"

text \<open>A string that neither starts nor ends with a white space rune.\<close>

definition trimmed :: "string \<Rightarrow> bool" where
  "trimmed s = (spaceLen False s = 0 \<and> spaceLen True (rev s) = 0)"

section \<open>Concrete servers, stores and requests\<close>

definition mcpUp :: MCPClient where
  "mcpUp = \<lparr> ListPRsForReview = (\<lambda>token. Inr []), ListUserPRs = (\<lambda>token. Inr []),
      GetPRComments = (\<lambda>token repo prNumber. Inr []),
      MergePR = (\<lambda>token repo prNumber method. None) \<rparr>"

definition mcpDown :: MCPClient where
  "mcpDown = \<lparr> ListPRsForReview = (\<lambda>token. Inl ''503''), ListUserPRs = (\<lambda>token. Inl ''503''),
      GetPRComments = (\<lambda>token repo prNumber. Inl ''503''),
      MergePR = (\<lambda>token repo prNumber method. Some ''503'') \<rparr>"

definition srvUp :: Server where
  "srvUp = \<lparr> cfg = \<lparr>cfg_GitHubToken = ''tok'', cfg_DefaultRepoOwner = [],
                     cfg_FrontendURL = ''http://front''\<rparr>,
      databaseStore = None, tokenStore = Inr None, mcp = mcpUp, intent = None,
      oauthCfg = True \<rparr>"

definition srvDown :: Server where
  "srvDown = srvUp\<lparr>mcp := mcpDown\<rparr>"

definition worldOK :: OAuthWorld where
  "worldOK = \<lparr> Exchange = (\<lambda>code. Inr \<lparr>AccessToken = ''gho_1'', TokenType = ''bearer'', Scope = []\<rparr>),
      fetchGitHubUsername = (\<lambda>accessToken. ''alice''),
      persist = (\<lambda>sid accessToken username. None) \<rparr>"

definition clkEx :: Clock where
  "clkEx = \<lparr>t_pending = 10, t_lookup = 11, t_write = 12\<rparr>"

text \<open>
  A store in which the session has been asked for the repository of PR 123, the answer
  of the classifier to the next utterance, a classification as unknown, and a server
  without any GitHub credential.
\<close>

definition stAsked :: MemoryStore where
  "stAsked =
     SetPendingIntent (NewMemoryStore 40) ''s_1'' ''get_pr_comments''
       [''pr_number'' \<mapsto> VFloat64 123] 0"

definition ciAnswer :: ClassifiedIntent where
  "ciAnswer = \<lparr> ci_Type = ''clarify'', ci_Args = [''repo'' \<mapsto> VString ''acme/widgets''],
      ci_Confidence = 1, ci_Message = [] \<rparr>"

definition ciUnknown :: ClassifiedIntent where
  "ciUnknown = \<lparr> ci_Type = ''unknown'', ci_Args = Map.empty, ci_Confidence = 0,
      ci_Message = [] \<rparr>"

definition srvNoAuth :: Server where
  "srvNoAuth = srvUp\<lparr>cfg := \<lparr>cfg_GitHubToken = [], cfg_DefaultRepoOwner = [],
                                cfg_FrontendURL = ''http://front''\<rparr>\<rparr>"

definition reqMerge :: ChatRequest where
  "reqMerge = \<lparr> rq_SessionID = ''s_1'', rq_Message = ''merge it'', rq_System = [] \<rparr>"

text \<open>Every pending intent of the store has a type.\<close>

definition pendingTyped :: "MemoryStore \<Rightarrow> bool" where
  "pendingTyped m = (\<forall>sid p. pendingBySession m sid = Some p \<longrightarrow> pi_Type p \<noteq> [])"

text \<open>
  The cached list of the specification, a store that holds it for the session, a store
  whose cached list has one PR without a repository, and the classified request for the
  comments of a PR given by its number only.
\<close>

definition refsEx :: "PRRef list" where
  "refsEx = [\<lparr>Number = 7, Repository = ''A/x''\<rparr>, \<lparr>Number = 7, Repository = ''B/y''\<rparr>,
             \<lparr>Number = 9, Repository = ''A/x''\<rparr>]"

definition stListed :: MemoryStore where
  "stListed = SetLastPRs (NewMemoryStore 40) ''s_1'' refsEx 0"


definition ciComments :: "rat \<Rightarrow> ClassifiedIntent" where
  "ciComments n = \<lparr> ci_Type = ''get_pr_comments'', ci_Args = [''pr_number'' \<mapsto> VFloat64 n],
      ci_Confidence = 1, ci_Message = [] \<rparr>"

text \<open>
  The request to list the PRs of the user, the store with the cached list after the user
  name has become known, and requests for the comments of PR 9 that name a repository:
  a bare name, and a single space.
\<close>

definition ciListMine :: ClassifiedIntent where
  "ciListMine = \<lparr> ci_Type = ''list_prs_mine'', ci_Args = Map.empty, ci_Confidence = 1,
      ci_Message = [] \<rparr>"

definition stAlice :: MemoryStore where
  "stAlice = SetUsername stListed ''s_1'' ''alice''"

definition ciRepo :: "string \<Rightarrow> ClassifiedIntent" where
  "ciRepo repo = \<lparr> ci_Type = ''get_pr_comments'',
      ci_Args = [''repo'' \<mapsto> VString repo, ''pr_number'' \<mapsto> VFloat64 9],
      ci_Confidence = 1, ci_Message = [] \<rparr>"

section \<open>The arguments on which the stand-ins for Go's library are exact\<close>

text \<open>
  Go's \<^verbatim>\<open>int\<close> has 64 bits, and \<^verbatim>\<open>int(n)\<close> is defined by the language only when the
  truncated float64 fits it; \<^verbatim>\<open>strings.ToLower\<close> is modelled on ASCII. The theorems
  about the branches that read a PR number or a merge method are stated for merged
  arguments whose PR number fits an \<^verbatim>\<open>int\<close> and whose merge method is ASCII: there
  \<open>int_of_float64\<close> and \<open>ToLower\<close> are what Go computes.
\<close>

definition fitsInt :: "int \<Rightarrow> bool" where
  "fitsInt k = (- 9223372036854775808 \<le> k \<and> k \<le> 9223372036854775807)"

definition asciiOnly :: "string \<Rightarrow> bool" where
  "asciiOnly s = list_all (\<lambda>c. (of_char c :: nat) < 128) s"

definition argsInModel :: "args \<Rightarrow> bool" where
  "argsInModel mergedArgs =
     ((case mergedArgs ''pr_number'' of
         Some (VFloat64 n) \<Rightarrow> fitsInt (int_of_float64 n)
       | Some (VInt n2) \<Rightarrow> fitsInt n2
       | _ \<Rightarrow> True)
      \<and> asciiOnly (stringArg mergedArgs ''merge_method''))"

text \<open>A request to merge PR 9 of a repository given by its bare name.\<close>

definition ciMerge :: ClassifiedIntent where
  "ciMerge = \<lparr> ci_Type = ''merge_pr'',
      ci_Args = [''repo'' \<mapsto> VString ''widgets'', ''pr_number'' \<mapsto> VFloat64 9],
      ci_Confidence = 1, ci_Message = [] \<rparr>"

section \<open>The history of a session\<close>

declare dropSpace.simps [simp del]

lemma maxMessages_trimLocked [simp]: "maxMessages (trimLocked m k) = maxMessages m"
  by (simp add: trimLocked_def Let_def)

lemma maxMessages_Append [simp]: "maxMessages (Append m k msg) = maxMessages m"
  by (simp add: Append_def)

lemma msgsOf_trimLocked_other: "k \<noteq> sid \<Longrightarrow> msgsOf (trimLocked m k) sid = msgsOf m sid"
  by (simp add: trimLocked_def Let_def msgsOf_def)

lemma msgsOf_trimLocked_same:
  "msgsOf (trimLocked m sid) sid =
     (if maxMessages m \<le> 0 then msgsOf m sid
      else drop (nat (int (length (msgsOf m sid)) - maxMessages m)) (msgsOf m sid))"
  by (simp add: trimLocked_def Let_def msgsOf_def)

lemma msgsOf_Append_other: "k \<noteq> sid \<Longrightarrow> msgsOf (Append m k msg) sid = msgsOf m sid"
  by (simp add: Append_def msgsOf_trimLocked_other) (simp add: msgsOf_def)

lemma msgsOf_Append_same:
  "msgsOf (Append m sid msg) sid =
     (if maxMessages m \<le> 0 then msgsOf m sid @ [msg]
      else drop (nat (int (length (msgsOf m sid)) + 1 - maxMessages m)) (msgsOf m sid @ [msg]))"
  by (simp add: Append_def msgsOf_trimLocked_same) (simp add: msgsOf_def add.commute)

lemma maxMessages_appendAll [simp]: "maxMessages (appendAll m ops) = maxMessages m"
  by (induction ops rule: rev_induct) (simp_all add: appendAll_def)

lemma appendAll_snoc: "appendAll m (ops @ [op]) = Append (appendAll m ops) (fst op) (snd op)"
  by (simp add: appendAll_def)

text \<open>
  The invariant of a run on a new store with a positive bound \<open>b\<close>: the history of a
  session is the last \<open>b\<close> of the messages appended to it.
\<close>

lemma msgsOf_appendAll:
  "0 < b \<Longrightarrow> msgsOf (appendAll (NewMemoryStore b) ops) sid =
     drop (length (appended ops sid) - nat b) (appended ops sid)"
proof (induction ops rule: rev_induct)
  case Nil
  then show ?case by (simp add: appendAll_def NewMemoryStore_def msgsOf_def appended_def)
next
  case (snoc op ops)
  show ?case
  proof (cases "fst op = sid")
    case True
    have "msgsOf (appendAll (NewMemoryStore b) (ops @ [op])) sid =
          drop (nat (int (length (msgsOf (appendAll (NewMemoryStore b) ops) sid)) + 1 - b))
               (msgsOf (appendAll (NewMemoryStore b) ops) sid @ [snd op])"
      using snoc.prems True by (simp add: appendAll_snoc msgsOf_Append_same NewMemoryStore_def)
    also have "\<dots> = drop (length (appended (ops @ [op]) sid) - nat b) (appended (ops @ [op]) sid)"
      using snoc.prems True snoc.IH[OF snoc.prems]
      by (auto simp: appended_def nat_diff_distrib' intro!: arg_cong2[where f=drop])
    finally show ?thesis .
  next
    case False
    then show ?thesis using snoc by (simp add: appendAll_snoc msgsOf_Append_other appended_def)
  qed
qed

text \<open>
  C6. The server builds its store with \<^verbatim>\<open>NewMemoryStore(40)\<close>. After any run of
  \<^verbatim>\<open>Append\<close> calls on it, to this session and to others, \<^verbatim>\<open>Get\<close> returns the messages
  appended to the session without the first \<open>N - 40\<close> of them, where \<open>N\<close> is their number:
  these are \<open>min N 40\<close> messages, they are the end of the appended sequence and keep its
  order. A single \<^verbatim>\<open>trimLocked\<close> always leaves an end of the history it finds, so it
  removes from the head only and reorders nothing.
\<close>

theorem history_keeps_last_messages:
  "Get (appendAll (NewMemoryStore 40) ops) sessionID =
     drop (length (appended ops sessionID) - 40) (appended ops sessionID)
   \<and> length (Get (appendAll (NewMemoryStore 40) ops) sessionID) =
       min (length (appended ops sessionID)) 40
   \<and> suffix (Get (appendAll (NewMemoryStore 40) ops) sessionID) (appended ops sessionID)
   \<and> suffix (msgsOf (trimLocked m sessionID) sessionID) (msgsOf m sessionID)"
proof -
  have g: "Get (appendAll (NewMemoryStore 40) ops) sessionID =
      drop (length (appended ops sessionID) - 40) (appended ops sessionID)"
    using msgsOf_appendAll[of 40 ops sessionID] by (simp add: Get_def)
  have t: "suffix (msgsOf (trimLocked m sessionID) sessionID) (msgsOf m sessionID)"
    by (simp add: msgsOf_trimLocked_same suffix_drop)
  show ?thesis
    unfolding g using t by (simp add: suffix_drop min_def)
qed

section \<open>Entries with a time to live\<close>

lemma GetPendingIntent_fresh:
  "now - t0 \<le> pendingTTL \<Longrightarrow>
   GetPendingIntent (SetPendingIntent m sid typ as t0) sid now =
     (SetPendingIntent m sid typ as t0, typ, as, True)"
  by (simp add: GetPendingIntent_def SetPendingIntent_def)

lemma GetPendingIntent_expired:
  "now - t0 > pendingTTL \<Longrightarrow>
   GetPendingIntent (SetPendingIntent m sid typ as t0) sid now =
     (ClearPendingIntent m sid, [], Map.empty, False)"
  by (simp add: GetPendingIntent_def SetPendingIntent_def ClearPendingIntent_def)

lemma SetPendingIntent_overwrites:
  "SetPendingIntent (fst (GetPendingIntent (SetPendingIntent m sid typ as t0) sid now)) sid typ' as' t1 =
   SetPendingIntent m sid typ' as' t1"
  by (simp add: GetPendingIntent_def SetPendingIntent_def)

lemma GetLastPRs_fresh:
  "now - t0 \<le> lastPRsTTL \<Longrightarrow>
   GetLastPRs (SetLastPRs m sid prs t0) sid now = (SetLastPRs m sid prs t0, prs, True)"
  by (simp add: GetLastPRs_def SetLastPRs_def)

lemma GetLastPRs_expired:
  "now - t0 > lastPRsTTL \<Longrightarrow>
   GetLastPRs (SetLastPRs m sid prs t0) sid now =
     (m\<lparr>lastPRsBySession := (lastPRsBySession m)(sid := None)\<rparr>, [], False)"
  by (simp add: GetLastPRs_def SetLastPRs_def)

lemma SetLastPRs_overwrites:
  "SetLastPRs (fst (GetLastPRs (SetLastPRs m sid prs t0) sid now)) sid prs' t1 =
   SetLastPRs m sid prs' t1"
  by (simp add: GetLastPRs_def SetLastPRs_def)

text \<open>
  C4. Both TTLs are seven minutes. A pending intent written at \<open>t0\<close> and read at \<open>now\<close>
  comes back as written, with \<^verbatim>\<open>true\<close>, when \<open>now - t0\<close> is at most the TTL. When more
  than the TTL has passed the read answers not found and the store it leaves has no
  entry for the session. A later write gives the store that the same write gives without
  the expired entry. The cache of the PRs listed last behaves the same way.
\<close>

theorem ttl_of_pending_and_last_prs:
  "pendingTTL = 7 * 60 * 1000000000 \<and> lastPRsTTL = 7 * 60 * 1000000000
   \<and> (now - t0 \<le> pendingTTL \<longrightarrow>
        GetPendingIntent (SetPendingIntent m sid typ as t0) sid now =
          (SetPendingIntent m sid typ as t0, typ, as, True))
   \<and> (now - t0 > pendingTTL \<longrightarrow>
        GetPendingIntent (SetPendingIntent m sid typ as t0) sid now =
          (ClearPendingIntent m sid, [], Map.empty, False)
        \<and> pendingBySession (ClearPendingIntent m sid) sid = None)
   \<and> SetPendingIntent (fst (GetPendingIntent (SetPendingIntent m sid typ as t0) sid now))
        sid typ' as' t1 = SetPendingIntent m sid typ' as' t1
   \<and> (now - t0 \<le> lastPRsTTL \<longrightarrow>
        GetLastPRs (SetLastPRs m sid prs t0) sid now = (SetLastPRs m sid prs t0, prs, True))
   \<and> (now - t0 > lastPRsTTL \<longrightarrow>
        GetLastPRs (SetLastPRs m sid prs t0) sid now =
          (m\<lparr>lastPRsBySession := (lastPRsBySession m)(sid := None)\<rparr>, [], False))
   \<and> SetLastPRs (fst (GetLastPRs (SetLastPRs m sid prs t0) sid now)) sid prs' t1 =
        SetLastPRs m sid prs' t1"
  using GetPendingIntent_fresh GetPendingIntent_expired SetPendingIntent_overwrites
    GetLastPRs_fresh GetLastPRs_expired SetLastPRs_overwrites
  by (simp add: pendingTTL_def lastPRsTTL_def Minute_def ClearPendingIntent_def)

theorem ttl_of_pending_and_last_prs_witness:
  "GetPendingIntent (SetPendingIntent (NewMemoryStore 40) ''s'' ''merge_pr'' [''pr_number'' \<mapsto> VInt 7] 0) ''s'' 420000000000
     = (SetPendingIntent (NewMemoryStore 40) ''s'' ''merge_pr'' [''pr_number'' \<mapsto> VInt 7] 0, ''merge_pr'', [''pr_number'' \<mapsto> VInt 7], True)
   \<and> GetPendingIntent (SetPendingIntent (NewMemoryStore 40) ''s'' ''merge_pr'' [''pr_number'' \<mapsto> VInt 7] 0) ''s'' 420000000001
     = (ClearPendingIntent (NewMemoryStore 40) ''s'', [], Map.empty, False)
   \<and> GetLastPRs (SetLastPRs (NewMemoryStore 40) ''s'' [\<lparr>Number = 7, Repository = ''A/x''\<rparr>] 0) ''s'' 420000000000
     = (SetLastPRs (NewMemoryStore 40) ''s'' [\<lparr>Number = 7, Repository = ''A/x''\<rparr>] 0, [\<lparr>Number = 7, Repository = ''A/x''\<rparr>], True)
   \<and> snd (GetLastPRs (SetLastPRs (NewMemoryStore 40) ''s'' [\<lparr>Number = 7, Repository = ''A/x''\<rparr>] 0) ''s'' 420000000001)
     = ([], False)"
  using ttl_of_pending_and_last_prs[of 420000000000 0 "NewMemoryStore 40" "''s''" "''merge_pr''" "[''pr_number'' \<mapsto> VInt 7]" "''x''" Map.empty 0 "[\<lparr>Number = 7, Repository = ''A/x''\<rparr>]" "[]"]
    ttl_of_pending_and_last_prs[of 420000000001 0 "NewMemoryStore 40" "''s''" "''merge_pr''" "[''pr_number'' \<mapsto> VInt 7]" "''x''" Map.empty 0 "[\<lparr>Number = 7, Repository = ''A/x''\<rparr>]" "[]"]
  by (simp add: pendingTTL_def lastPRsTTL_def Minute_def)

section \<open>The OAuth state token\<close>

lemma callback_error_keeps_store:
  "handleGitHubCallback srv world m state code = (m', WriteError c e) \<Longrightarrow> m' = m"
  by (auto simp: handleGitHubCallback_def Let_def split: if_splits sum.splits option.splits)

lemma ClearOAuthState_both:
  "oauthStateBySession m sid = Some st \<Longrightarrow>
   oauthStateBySession (ClearOAuthState m sid) sid = None \<and>
   sessionByOAuthState (ClearOAuthState m sid) st = None"
  by (simp add: ClearOAuthState_def)

lemma callback_success_store:
  assumes "handleGitHubCallback srv world m state code = (m', Redirect url)"
  shows "\<exists>sid user. oauthStateBySession m sid = Some state \<and> state \<noteq> [] \<and>
           m' = ClearOAuthState (SetUsername m sid user) sid"
  using assms
  by (auto simp: handleGitHubCallback_def Let_def GetOAuthState_def strAt_def
      split: if_splits sum.splits option.splits)

lemma callback_success_invalidates:
  assumes "handleGitHubCallback srv world m state code = (m', Redirect url)"
  shows "GetSessionByOAuthState m' state = []"
proof -
  obtain sid user where a: "oauthStateBySession m sid = Some state"
    and b: "m' = ClearOAuthState (SetUsername m sid user) sid"
    using callback_success_store[OF assms] by blast
  have "oauthStateBySession (SetUsername m sid user) sid = Some state"
    using a by (simp add: SetUsername_def)
  from ClearOAuthState_both[OF this] show ?thesis
    using b by (simp add: GetSessionByOAuthState_def strAt_def)
qed

lemma callback_unknown_state:
  "GetSessionByOAuthState m state = [] \<Longrightarrow> oauthCfg srv \<Longrightarrow> code \<noteq> [] \<Longrightarrow> state \<noteq> [] \<Longrightarrow>
   handleGitHubCallback srv world m state code = (m, WriteError 400 ''invalid oauth state'')"
  by (simp add: handleGitHubCallback_def Let_def)

text \<open>
  C9. After \<^verbatim>\<open>SetOAuthState\<close> the state token resolves to its session, and the look-ups
  are reads: they return a string and no store. A callback that ends in an error, also
  after it has resolved the token, leaves the store as it was. \<^verbatim>\<open>ClearOAuthState\<close>
  removes both directions of the link. A callback that completes (it answers with the
  redirect) leaves a store in which the state token resolves to no session, and a second
  callback with the same state token is refused as an invalid state.
\<close>

theorem oauth_state_single_use:
  "GetSessionByOAuthState (SetOAuthState m sid st) st = sid
   \<and> GetOAuthState (SetOAuthState m sid st) sid = st
   \<and> (handleGitHubCallback srv world m state code = (m', WriteError c e) \<longrightarrow> m' = m)
   \<and> (oauthStateBySession m sid = Some st \<longrightarrow>
        oauthStateBySession (ClearOAuthState m sid) sid = None \<and>
        sessionByOAuthState (ClearOAuthState m sid) st = None)
   \<and> (handleGitHubCallback srv world m state code = (m', Redirect url) \<longrightarrow>
        GetSessionByOAuthState m' state = [] \<and>
        (oauthCfg srv' \<and> code' \<noteq> [] \<longrightarrow>
           handleGitHubCallback srv' world' m' state code' =
             (m', WriteError 400 ''invalid oauth state'')))"
  using callback_error_keeps_store[of srv world m state code m' c e]
    ClearOAuthState_both[of m sid st]
    callback_success_invalidates[of srv world m state code m' url]
    callback_unknown_state[of m' state srv' code' world']
    callback_success_store[of srv world m state code m' url]
  by (auto simp: GetSessionByOAuthState_def GetOAuthState_def SetOAuthState_def strAt_def)

lemma ex_callback:
  "handleGitHubCallback srvUp worldOK (handleGitHubAuth (NewMemoryStore 40) ''s_1'' ''st4te'') ''st4te'' ''code1''
   = (ClearOAuthState (SetUsername (handleGitHubAuth (NewMemoryStore 40) ''s_1'' ''st4te'') ''s_1'' ''alice'') ''s_1'',
      Redirect ''http://front?githubAuth=success'')"
  by (simp add: handleGitHubCallback_def handleGitHubAuth_def srvUp_def worldOK_def Let_def
      GetSessionByOAuthState_def GetOAuthState_def SetOAuthState_def strAt_def NewMemoryStore_def)

theorem oauth_state_single_use_witness:
  "handleGitHubCallback srvUp worldOK
     (ClearOAuthState (SetUsername (handleGitHubAuth (NewMemoryStore 40) ''s_1'' ''st4te'') ''s_1'' ''alice'') ''s_1'')
     ''st4te'' ''code1''
   = (ClearOAuthState (SetUsername (handleGitHubAuth (NewMemoryStore 40) ''s_1'' ''st4te'') ''s_1'' ''alice'') ''s_1'',
      WriteError 400 ''invalid oauth state'')"
  using oauth_state_single_use[where srv = srvUp and world = worldOK
      and m = "handleGitHubAuth (NewMemoryStore 40) ''s_1'' ''st4te''" and state = "''st4te''"
      and code = "''code1''"
      and m' = "ClearOAuthState (SetUsername (handleGitHubAuth (NewMemoryStore 40) ''s_1'' ''st4te'') ''s_1'' ''alice'') ''s_1''"
      and url = "''http://front?githubAuth=success''" and srv' = srvUp and code' = "''code1''"
      and world' = worldOK] ex_callback
  by (simp add: srvUp_def)

section \<open>Facts about strings.TrimSpace\<close>

lemma spaceLen_le: "spaceLen rv s \<le> length s"
  by (simp add: spaceLen_def split: list.splits)

lemma dropSpace_fix: "spaceLen rv s = 0 \<Longrightarrow> dropSpace rv s = s"
  by (subst dropSpace.simps) simp

lemma dropSpace_step: "spaceLen rv s \<noteq> 0 \<Longrightarrow> dropSpace rv s = dropSpace rv (drop (spaceLen rv s) s)"
  by (subst dropSpace.simps) simp

lemma spaceLen_dropSpace: "spaceLen rv (dropSpace rv s) = 0"
proof (induction rv s rule: dropSpace.induct)
  case (1 rv s)
  show ?case
  proof (cases "spaceLen rv s = 0")
    case True
    then show ?thesis by (simp add: dropSpace_fix)
  next
    case False
    then show ?thesis using "1" by (simp add: dropSpace_step)
  qed
qed

lemma suffix_dropSpace: "suffix (dropSpace rv s) s"
proof (induction rv s rule: dropSpace.induct)
  case (1 rv s)
  show ?case
  proof (cases "spaceLen rv s = 0")
    case True
    then show ?thesis by (simp add: dropSpace_fix)
  next
    case False
    then have "suffix (dropSpace rv s) (drop (spaceLen rv s) s)"
      using "1" by (simp add: dropSpace_step)
    then show ?thesis
      using suffix_drop suffix_order.trans by blast
  qed
qed

lemma spaceLen_prefix: "prefix p s \<Longrightarrow> spaceLen rv s = 0 \<Longrightarrow> spaceLen rv p = 0"
  by (auto simp: spaceLen_def prefix_def split: list.splits if_splits)

lemma spaceLen_slash:
  "p \<noteq> [] \<Longrightarrow> spaceLen rv p = 0 \<Longrightarrow> spaceLen rv (p @ CHR ''/'' # t) = 0"
  by (auto simp: spaceLen_def space1_def space2_def space3_def split: list.splits if_splits)

lemma TrimSpace_trimmed: "trimmed s \<Longrightarrow> TrimSpace s = s"
  by (simp add: trimmed_def TrimSpace_def dropSpace_fix)

lemma trimmed_TrimSpace: "trimmed (TrimSpace s)"
proof -
  let ?L = "dropSpace False s"
  let ?R = "dropSpace True (rev ?L)"
  have "suffix ?R (rev ?L)" by (rule suffix_dropSpace)
  then have "prefix (rev ?R) ?L" by (simp add: suffix_to_prefix)
  moreover have "spaceLen False ?L = 0" by (rule spaceLen_dropSpace)
  ultimately have "spaceLen False (rev ?R) = 0" by (rule spaceLen_prefix)
  moreover have "spaceLen True ?R = 0" by (rule spaceLen_dropSpace)
  ultimately show ?thesis by (simp add: trimmed_def TrimSpace_def)
qed

lemma TrimSpace_idem: "TrimSpace (TrimSpace s) = TrimSpace s"
  by (simp add: TrimSpace_trimmed trimmed_TrimSpace)

lemma TrimSpace_Nil: "TrimSpace [] = []"
  by (simp add: TrimSpace_trimmed trimmed_def spaceLen_def)

lemma trimmed_slash:
  assumes "trimmed a" "trimmed b" "a \<noteq> []" "b \<noteq> []"
  shows "trimmed (a @ ''/'' @ b)"
proof -
  have "spaceLen False (a @ CHR ''/'' # b) = 0"
    using assms by (simp add: trimmed_def spaceLen_slash)
  moreover have "spaceLen True (rev b @ CHR ''/'' # rev a) = 0"
    using assms by (simp add: trimmed_def spaceLen_slash)
  ultimately show ?thesis by (simp add: trimmed_def)
qed

section \<open>Merging with the pending intent\<close>

lemma mergePending_store: "fst (mergePending m sid ci now) = fst (GetPendingIntent m sid now)"
  by (simp add: mergePending_def Let_def split: prod.splits)

lemma mergePending_type:
  "ci_Type ci \<noteq> ''clarify'' \<Longrightarrow> fst (snd (mergePending m sid ci now)) = ci_Type ci"
  by (simp add: mergePending_def Let_def split: prod.splits)

lemma GetPendingIntent_found:
  "pendingBySession m sid = Some p \<Longrightarrow> now - pi_UpdatedAt p \<le> pendingTTL \<Longrightarrow>
   GetPendingIntent m sid now = (m, pi_Type p, pi_Args p, True)"
  by (simp add: GetPendingIntent_def)

text \<open>
  Every pending intent that the handler stores has a type: it writes the constants
  \<^verbatim>\<open>get_pr_comments\<close> and \<^verbatim>\<open>merge_pr\<close>, or a pending type it has found not to be
  empty (\<open>handleWithArgs_pendingTyped\<close> below shows that a turn keeps this).
\<close>

lemma pendingTyped_NewMemoryStore: "pendingTyped (NewMemoryStore n)"
  by (simp add: pendingTyped_def NewMemoryStore_def)

lemma pendingTyped_SetPendingIntent:
  "pendingTyped m \<Longrightarrow> typ \<noteq> [] \<Longrightarrow> pendingTyped (SetPendingIntent m sid typ as now)"
  by (simp add: pendingTyped_def SetPendingIntent_def)

lemma pendingTyped_typed:
  "pendingTyped m \<Longrightarrow> pendingBySession m sid = Some p \<Longrightarrow> pi_Type p \<noteq> []"
  by (auto simp: pendingTyped_def)

text \<open>
  C1. The store is one in which every pending intent has a type, and the session has a
  pending intent that has not expired at the read. Then the read leaves the store as it
  is, the effective type is the pending type when the classifier says clarify and the
  classified type otherwise, and when the effective type is the pending type the merged
  map has the pending value at every key that only the pending map has, the classified
  value at every key of the classified map, and no other key. When the types differ the
  merged map is the classified one.
\<close>

theorem pending_intent_is_merged:
  assumes "pendingTyped m"
    and "pendingBySession m sessionID = Some p"
    and "now - pi_UpdatedAt p \<le> pendingTTL"
  shows "\<exists>targetType mergedArgs.
     mergePending m sessionID ci now = (m, targetType, mergedArgs)
     \<and> targetType = (if ci_Type ci = ''clarify'' then pi_Type p else ci_Type ci)
     \<and> (targetType = pi_Type p \<longrightarrow>
          (\<forall>k v. ci_Args ci k = None \<and> pi_Args p k = Some v \<longrightarrow> mergedArgs k = Some v)
          \<and> (\<forall>k v. ci_Args ci k = Some v \<longrightarrow> mergedArgs k = Some v)
          \<and> dom mergedArgs = dom (pi_Args p) \<union> dom (ci_Args ci))
     \<and> (targetType \<noteq> pi_Type p \<longrightarrow> mergedArgs = ci_Args ci)"
  using assms(2,3) pendingTyped_typed[OF assms(1,2)]
  by (auto simp: mergePending_def GetPendingIntent_found Let_def fillMissing_def dom_def
      split: option.splits)

lemma pendingBySession_trimLocked [simp]:
  "pendingBySession (trimLocked m k) = pendingBySession m"
  by (simp add: trimLocked_def Let_def)

lemma pendingBySession_Append [simp]: "pendingBySession (Append m k msg) = pendingBySession m"
  by (simp add: Append_def)

lemma lastPRsBySession_trimLocked [simp]:
  "lastPRsBySession (trimLocked m k) = lastPRsBySession m"
  by (simp add: trimLocked_def Let_def)

lemma lastPRsBySession_Append [simp]: "lastPRsBySession (Append m k msg) = lastPRsBySession m"
  by (simp add: Append_def)

lemma getGitHubToken_cong:
  "getGitHubToken (srv\<lparr>mcp := pr, intent := cl\<rparr>) sid = getGitHubToken srv sid"
  by (simp add: getGitHubToken_def Let_def split: option.splits sum.splits)

lemma handleUnknown_out:
  "handleUnknown m sid ci =
     respond (ClearPendingIntent m sid)
       (if TrimSpace (ci_Message ci) = [] then replyUnknownDefault else TrimSpace (ci_Message ci))
       ''not_implemented''"
  by (simp add: handleUnknown_def Let_def)

lemma handleWithArgs_unknown:
  assumes "ci_Type ci = ''unknown'' \<or> ci_Type ci = ''not_implemented''"
  shows "handleWithArgs srv clk m sid ci =
     handleUnknown (fst (GetPendingIntent m sid (t_pending clk))) sid ci"
proof -
  have ty: "fst (snd (mergePending m sid ci (t_pending clk))) = ci_Type ci"
    using assms by (auto intro: mergePending_type)
  obtain m1 T A where mp: "mergePending m sid ci (t_pending clk) = (m1, T, A)"
    by (metis prod_cases3)
  have "T = ci_Type ci" using ty mp by simp
  moreover have "m1 = fst (GetPendingIntent m sid (t_pending clk))"
    using mergePending_store[of m sid ci "t_pending clk"] mp by simp
  ultimately show ?thesis
    using assms mp by (auto simp: handleWithArgs_def)
qed

lemma stAsked_pending:
  "pendingBySession stAsked ''s_1'' =
     Some \<lparr>pi_Type = ''get_pr_comments'', pi_Args = [''pr_number'' \<mapsto> VFloat64 123],
           pi_UpdatedAt = 0\<rparr>"
  by (simp add: stAsked_def SetPendingIntent_def)

theorem pending_intent_is_merged_witness:
  "\<exists>mergedArgs.
     mergePending stAsked ''s_1'' ciAnswer 10 = (stAsked, ''get_pr_comments'', mergedArgs)
     \<and> mergedArgs ''pr_number'' = Some (VFloat64 123)
     \<and> mergedArgs ''repo'' = Some (VString ''acme/widgets'')"
proof -
  have "pendingTyped stAsked"
    unfolding stAsked_def
    by (rule pendingTyped_SetPendingIntent[OF pendingTyped_NewMemoryStore]) simp
  from pending_intent_is_merged[OF this stAsked_pending, of 10 ciAnswer]
  show ?thesis by (auto simp: pendingTTL_def Minute_def ciAnswer_def)
qed

lemma pendingBySession_GetPendingIntent_other:
  "k \<noteq> sid \<Longrightarrow> pendingBySession (fst (GetPendingIntent m sid now)) k = pendingBySession m k"
  by (simp add: GetPendingIntent_def split: option.splits)

section \<open>Unknown and not implemented\<close>

text \<open>
  C7. When the classifier answers unknown or not_implemented, whatever the store holds,
  the store after the turn has no pending intent for the session (the pending intents of
  other sessions stay), the reply is the trimmed message of the classifier or, when that
  is empty, the fixed text, the intent of the response has type not_implemented and no
  payload, and no provider call is made.
\<close>

theorem unknown_clears_pending:
  assumes "ci_Type ci = ''unknown'' \<or> ci_Type ci = ''not_implemented''"
  shows "pendingBySession (out_store (handleWithArgs srv clk m sessionID ci)) sessionID = None
    \<and> (\<forall>k. k \<noteq> sessionID \<longrightarrow>
          pendingBySession (out_store (handleWithArgs srv clk m sessionID ci)) k =
            pendingBySession m k)
    \<and> out_intent (handleWithArgs srv clk m sessionID ci) =
          Some \<lparr>ir_Type = ''not_implemented'', ir_Payload = None\<rparr>
    \<and> out_reply (handleWithArgs srv clk m sessionID ci) =
          (if TrimSpace (ci_Message ci) = [] then replyUnknownDefault
           else TrimSpace (ci_Message ci))
    \<and> out_ok (handleWithArgs srv clk m sessionID ci)
    \<and> out_call (handleWithArgs srv clk m sessionID ci) = None"
  using assms
  by (simp add: handleWithArgs_unknown handleUnknown_out respond_def ClearPendingIntent_def
      pendingBySession_GetPendingIntent_other)

theorem unknown_clears_pending_witness:
  "pendingBySession stAsked ''s_1'' \<noteq> None
   \<and> pendingBySession (out_store (handleWithArgs srvUp clkEx stAsked ''s_1'' ciUnknown)) ''s_1'' = None
   \<and> out_intent (handleWithArgs srvUp clkEx stAsked ''s_1'' ciUnknown) =
        Some \<lparr>ir_Type = ''not_implemented'', ir_Payload = None\<rparr>
   \<and> out_reply (handleWithArgs srvUp clkEx stAsked ''s_1'' ciUnknown) = replyUnknownDefault"
  using unknown_clears_pending[of ciUnknown srvUp clkEx stAsked "''s_1''"] stAsked_pending
  by (simp add: ciUnknown_def TrimSpace_Nil)

section \<open>Requests without a GitHub credential\<close>

lemma handleListPRs_no_token:
  "TrimSpace (getGitHubToken srv sid) = [] \<Longrightarrow>
   handleListPRs srv clk m sid T = respond m replyNeedAuthList ''require_github_auth''"
  by (simp add: handleListPRs_def Let_def)

lemma handleWithArgs_list:
  assumes "ci_Type ci = ''list_prs_mine'' \<or> ci_Type ci = ''list_prs_review''"
  shows "handleWithArgs srv clk m sid ci =
     handleListPRs srv clk (fst (GetPendingIntent m sid (t_pending clk))) sid (ci_Type ci)"
proof -
  have ty: "fst (snd (mergePending m sid ci (t_pending clk))) = ci_Type ci"
    using assms by (auto intro: mergePending_type)
  obtain m1 T A where mp: "mergePending m sid ci (t_pending clk) = (m1, T, A)"
    by (metis prod_cases3)
  have "T = ci_Type ci" using ty mp by simp
  moreover have "m1 = fst (GetPendingIntent m sid (t_pending clk))"
    using mergePending_store[of m sid ci "t_pending clk"] mp by simp
  ultimately show ?thesis
    using assms mp by (auto simp: handleWithArgs_def)
qed

text \<open>
  C8. A chat request with a message, for a session for which \<^verbatim>\<open>getGitHubToken\<close> finds
  no token: the response is the JSON answer with the intent require_github_auth; the
  pending intents and the cached PR lists of the store are those of before (only the
  history has grown); and the result is the same for every classifier, every provider and
  every clock, so none of them is consulted. The listing branch of \<^verbatim>\<open>handleWithArgs\<close>
  has the same check: it answers require_github_auth after the read of the pending
  intent and writes nothing.
\<close>

theorem no_credential_short_circuits:
  assumes "TrimSpace (getGitHubToken srv sid) = []"
    and "TrimSpace (rq_Message req) \<noteq> []"
  shows "snd (handleChat srv clk m sid req) =
       WriteJSON \<lparr> rs_SessionID = sid, rs_Reply = replyConnectGitHub, rs_Transcript = [],
         rs_Intent = Some \<lparr>ir_Type = ''require_github_auth'', ir_Payload = None\<rparr> \<rparr>
    \<and> pendingBySession (fst (handleChat srv clk m sid req)) = pendingBySession m
    \<and> lastPRsBySession (fst (handleChat srv clk m sid req)) = lastPRsBySession m
    \<and> handleChat (srv\<lparr>mcp := provider, intent := classifier\<rparr>) clk' m sid req =
         handleChat srv clk m sid req
    \<and> (ci_Type ci = ''list_prs_mine'' \<or> ci_Type ci = ''list_prs_review'' \<longrightarrow>
         handleWithArgs srv clk m sid ci =
           respond (fst (GetPendingIntent m sid (t_pending clk))) replyNeedAuthList
             ''require_github_auth'')"
  using assms
  by (simp add: handleChat_def Let_def getGitHubToken_cong handleWithArgs_list
      handleListPRs_no_token)

lemma trimmed_merge_it: "trimmed ''merge it''"
  by (simp add: trimmed_def spaceLen_def space1_def space2_def space3_def)

theorem no_credential_short_circuits_witness:
  "snd (handleChat srvNoAuth clkEx stAsked ''s_1'' reqMerge) =
       WriteJSON \<lparr> rs_SessionID = ''s_1'', rs_Reply = replyConnectGitHub, rs_Transcript = [],
         rs_Intent = Some \<lparr>ir_Type = ''require_github_auth'', ir_Payload = None\<rparr> \<rparr>
   \<and> pendingBySession (fst (handleChat srvNoAuth clkEx stAsked ''s_1'' reqMerge)) =
       pendingBySession stAsked"
  using no_credential_short_circuits[of srvNoAuth "''s_1''" reqMerge clkEx stAsked]
    TrimSpace_trimmed[OF trimmed_merge_it]
  by (simp add: srvNoAuth_def srvUp_def getGitHubToken_def reqMerge_def TrimSpace_Nil)

section \<open>The switch of handleWithArgs\<close>

lemma handleWithArgs_unfold:
  "mergePending m sid ci (t_pending clk) = (m1, T, A) \<Longrightarrow>
   handleWithArgs srv clk m sid ci =
     (if T = ''list_prs_mine'' \<or> T = ''list_prs_review'' then handleListPRs srv clk m1 sid T
      else if T = ''get_pr_comments'' then handleGetPRComments srv clk m1 sid A
      else if T = ''merge_pr'' then handleMergePR srv clk m1 sid A
      else if T = ''clarify'' then handleClarify clk m1 sid ci A
      else if T = ''not_implemented'' \<or> T = ''unknown'' then handleUnknown m1 sid ci
      else failed m1)"
  by (simp add: handleWithArgs_def failed_def)

section \<open>The pending intents of a store have a type\<close>

lemma pendingTyped_ClearPendingIntent:
  "pendingTyped m \<Longrightarrow> pendingTyped (ClearPendingIntent m sid)"
  by (simp add: pendingTyped_def ClearPendingIntent_def)

lemma pendingTyped_GetPendingIntent:
  "pendingTyped m \<Longrightarrow> pendingTyped (fst (GetPendingIntent m sid now))"
  by (simp add: pendingTyped_def GetPendingIntent_def split: option.splits)

lemma GetPendingIntent_typed:
  "pendingTyped m \<Longrightarrow> GetPendingIntent m sid now = (m1, pType, pArgs, True) \<Longrightarrow> pType \<noteq> []"
  by (auto simp: pendingTyped_def GetPendingIntent_def split: option.splits if_splits)

lemma pendingTyped_GetLastPRs:
  "pendingTyped m \<Longrightarrow> pendingTyped (fst (GetLastPRs m sid now))"
  by (simp add: pendingTyped_def GetLastPRs_def split: option.splits)

lemma pendingTyped_SetLastPRs:
  "pendingTyped m \<Longrightarrow> pendingTyped (SetLastPRs m sid prs now)"
  by (simp add: pendingTyped_def SetLastPRs_def)

lemma autoResolve_store:
  "fst (autoResolve m sid repo n now) = m \<or>
   fst (autoResolve m sid repo n now) = fst (GetLastPRs m sid now)"
  by (simp add: autoResolve_def Let_def split: prod.splits)

lemma pendingTyped_autoResolve:
  "pendingTyped m \<Longrightarrow> pendingTyped (fst (autoResolve m sid repo n now))"
  using autoResolve_store[of m sid repo n now] pendingTyped_GetLastPRs[of m sid now]
  by auto

lemma pendingTyped_handleListPRs:
  "pendingTyped m \<Longrightarrow> pendingTyped (out_store (handleListPRs srv clk m sid T))"
  by (auto simp: handleListPRs_def Let_def respond_def
      intro!: pendingTyped_ClearPendingIntent pendingTyped_SetLastPRs split: sum.splits)

lemma pendingTyped_handleGetPRComments:
  assumes "pendingTyped m"
  shows "pendingTyped (out_store (handleGetPRComments srv clk m sid A))"
proof -
  have "pendingTyped (fst (autoResolve m sid r n t))" for r n t
    using assms by (rule pendingTyped_autoResolve)
  then show ?thesis
    by (auto simp: handleGetPRComments_def Let_def respond_def
      intro!: pendingTyped_ClearPendingIntent pendingTyped_SetPendingIntent
      split: prod.splits sum.splits) (metis fst_conv)+
qed

lemma pendingTyped_handleMergePR:
  assumes "pendingTyped m"
  shows "pendingTyped (out_store (handleMergePR srv clk m sid A))"
proof -
  have "pendingTyped (fst (autoResolve m sid r n t))" for r n t
    using assms by (rule pendingTyped_autoResolve)
  then show ?thesis
    by (auto simp: handleMergePR_def Let_def respond_def
      intro!: pendingTyped_ClearPendingIntent pendingTyped_SetPendingIntent
      split: prod.splits sum.splits option.splits) (metis fst_conv)+
qed

lemma pendingTyped_handleClarify:
  assumes "pendingTyped m"
  shows "pendingTyped (out_store (handleClarify clk m sid ci A))"
proof -
  have "pendingTyped (fst (GetPendingIntent m sid t))" for t
    using assms by (rule pendingTyped_GetPendingIntent)
  then show ?thesis
    by (auto simp: handleClarify_def Let_def
      intro!: pendingTyped_SetPendingIntent split: prod.splits) (metis fst_conv)+
qed

lemma pendingTyped_handleUnknown:
  "pendingTyped m \<Longrightarrow> pendingTyped (out_store (handleUnknown m sid ci))"
  by (simp add: handleUnknown_def Let_def respond_def pendingTyped_ClearPendingIntent)

text \<open>Every pending intent that a turn leaves in the store has a type.\<close>

lemma handleWithArgs_pendingTyped:
  assumes "pendingTyped m"
  shows "pendingTyped (out_store (handleWithArgs srv clk m sid ci))"
proof -
  obtain m1 T A where mp: "mergePending m sid ci (t_pending clk) = (m1, T, A)"
    by (metis prod_cases3)
  have "m1 = fst (GetPendingIntent m sid (t_pending clk))"
    using mergePending_store[of m sid ci "t_pending clk"] mp by simp
  then have "pendingTyped m1"
    using assms by (simp add: pendingTyped_GetPendingIntent)
  then show ?thesis
    unfolding handleWithArgs_unfold[OF mp]
    by (simp add: pendingTyped_handleListPRs pendingTyped_handleGetPRComments
        pendingTyped_handleMergePR pendingTyped_handleClarify pendingTyped_handleUnknown
        failed_def)
qed

lemma pendingTyped_Append: "pendingTyped m \<Longrightarrow> pendingTyped (Append m sid msg)"
  by (simp add: pendingTyped_def)

lemma handleChat_pendingTyped:
  assumes "pendingTyped m"
  shows "pendingTyped (fst (handleChat srv clk m sid req))"
  using assms
  by (auto simp: handleChat_def Let_def classifyAndHandle_def failed_def
      intro!: pendingTyped_Append handleWithArgs_pendingTyped split: option.splits)

section \<open>A failing action provider\<close>

lemma handleListPRs_call:
  assumes "out_call (handleListPRs srv clk m sid T) = Some (c, m0)"
    and "providerFailed (mcp srv) c"
  shows "handleListPRs srv clk m sid T =
           (respond m replyListFailed ''error'')\<lparr>out_call := Some (c, m)\<rparr> \<and> m0 = m"
  using assms
  by (auto simp: handleListPRs_def Let_def respond_def providerFailed_def
      split: if_splits sum.splits)

lemma handleGetPRComments_call:
  assumes "out_call (handleGetPRComments srv clk m sid A) = Some (c, m0)"
    and "providerFailed (mcp srv) c"
  shows "handleGetPRComments srv clk m sid A =
           (respond m0 replyCommentsFailed ''error'')\<lparr>out_call := Some (c, m0)\<rparr> \<and>
         (m0 = m \<or> m0 = fst (GetLastPRs m sid (t_lookup clk)))"
proof -
  let ?r = "TrimSpace (ownerRepo srv m sid (TrimSpace (stringArg A ''repo'')))"
  obtain m1 res where ar: "autoResolve m sid ?r (prNumberOf A) (t_lookup clk) = (m1, res)"
    by (metis surj_pair)
  have st: "m1 = m \<or> m1 = fst (GetLastPRs m sid (t_lookup clk))"
    using autoResolve_store[of m sid ?r "prNumberOf A" "t_lookup clk"] ar by simp
  show ?thesis
    using assms ar st
    by (auto simp: handleGetPRComments_def Let_def respond_def providerFailed_def
        split: if_splits sum.splits)
qed

lemma handleMergePR_call:
  assumes "out_call (handleMergePR srv clk m sid A) = Some (c, m0)"
    and "providerFailed (mcp srv) c"
  shows "handleMergePR srv clk m sid A =
           (respond m0 replyMergeFailed ''error'')\<lparr>out_call := Some (c, m0)\<rparr> \<and>
         (m0 = m \<or> m0 = fst (GetLastPRs m sid (t_lookup clk)))"
proof -
  let ?r = "ownerRepo srv m sid (TrimSpace (stringArg A ''repo''))"
  obtain m1 res where ar: "autoResolve m sid ?r (prNumberOf A) (t_lookup clk) = (m1, res)"
    by (metis surj_pair)
  have st: "m1 = m \<or> m1 = fst (GetLastPRs m sid (t_lookup clk))"
    using autoResolve_store[of m sid ?r "prNumberOf A" "t_lookup clk"] ar by simp
  show ?thesis
    using assms ar st
    by (auto simp: handleMergePR_def Let_def respond_def providerFailed_def
        split: if_splits sum.splits option.splits)
qed

lemma no_call_clarify: "out_call (handleClarify clk m sid ci A) = None"
  by (simp add: handleClarify_def Let_def split: prod.splits)

lemma no_call_unknown: "out_call (handleUnknown m sid ci) = None"
  by (simp add: handleUnknown_def Let_def respond_def)

text \<open>
  Whatever call a turn has made: when it failed, the turn has answered with the error
  response and has left the store as it was at the call.
\<close>

lemma failed_call_keeps_store:
  assumes "out_call (handleWithArgs srv clk m sessionID ci) = Some (c, m0)"
    and "providerFailed (mcp srv) c"
  shows "out_store (handleWithArgs srv clk m sessionID ci) = m0
    \<and> pendingBySession (out_store (handleWithArgs srv clk m sessionID ci)) = pendingBySession m0
    \<and> lastPRsBySession (out_store (handleWithArgs srv clk m sessionID ci)) = lastPRsBySession m0
    \<and> out_intent (handleWithArgs srv clk m sessionID ci) =
         Some \<lparr>ir_Type = ''error'', ir_Payload = None\<rparr>
    \<and> out_reply (handleWithArgs srv clk m sessionID ci)
         \<in> {replyListFailed, replyCommentsFailed, replyMergeFailed}
    \<and> out_ok (handleWithArgs srv clk m sessionID ci)
    \<and> (m0 = fst (GetPendingIntent m sessionID (t_pending clk)) \<or>
        m0 = fst (GetLastPRs (fst (GetPendingIntent m sessionID (t_pending clk))) sessionID
                    (t_lookup clk)))"
proof -
  obtain m1 T A where mp: "mergePending m sessionID ci (t_pending clk) = (m1, T, A)"
    by (metis prod_cases3)
  have m1: "m1 = fst (GetPendingIntent m sessionID (t_pending clk))"
    using mergePending_store[of m sessionID ci "t_pending clk"] mp by simp
  note u = handleWithArgs_unfold[OF mp, of srv]
  consider (list) "T = ''list_prs_mine'' \<or> T = ''list_prs_review''"
    | (comments) "T = ''get_pr_comments''"
    | (merge) "T = ''merge_pr''"
    | (other) "T \<noteq> ''list_prs_mine''" "T \<noteq> ''list_prs_review''" "T \<noteq> ''get_pr_comments''"
        "T \<noteq> ''merge_pr''"
    by blast
  then show ?thesis
  proof cases
    case list
    then have h: "handleWithArgs srv clk m sessionID ci = handleListPRs srv clk m1 sessionID T"
      using u by simp
    from handleListPRs_call[of srv clk m1 sessionID T c m0] assms h m1
    show ?thesis by (simp add: respond_def)
  next
    case comments
    then have h: "handleWithArgs srv clk m sessionID ci = handleGetPRComments srv clk m1 sessionID A"
      using u by simp
    from handleGetPRComments_call[of srv clk m1 sessionID A c m0] assms h m1
    show ?thesis by (auto simp: respond_def)
  next
    case merge
    then have h: "handleWithArgs srv clk m sessionID ci = handleMergePR srv clk m1 sessionID A"
      using u by simp
    from handleMergePR_call[of srv clk m1 sessionID A c m0] assms h m1
    show ?thesis by (auto simp: respond_def)
  next
    case other
    then have "out_call (handleWithArgs srv clk m sessionID ci) = None"
      using u by (simp add: no_call_clarify no_call_unknown failed_def)
    with assms show ?thesis by simp
  qed
qed

section \<open>The repository of a bare PR number\<close>

lemma autoResolve_given: "repo \<noteq> [] \<Longrightarrow> autoResolve m sid repo n now = (m, Inr repo)"
  by (simp add: autoResolve_def)

lemma autoResolve_no_number: "n \<le> 0 \<Longrightarrow> autoResolve m sid repo n now = (m, Inr repo)"
  by (simp add: autoResolve_def)

lemma autoResolve_cached:
  assumes "0 < n" and "GetLastPRs m sid now = (m2, refs, True)"
  shows "autoResolve m sid [] n now =
     (m2, if length (matchesOf refs n) = 1 then Inr (matchesOf refs n ! 0)
          else if 1 < length (matchesOf refs n) then Inl (matchesOf refs n)
          else Inr [])"
  using assms by (simp add: autoResolve_def Let_def)

lemma autoResolve_no_cache:
  assumes "0 < n" and "GetLastPRs m sid now = (m2, refs, False)"
  shows "autoResolve m sid [] n now = (m2, Inr [])"
  using assms by (simp add: autoResolve_def Let_def)

lemma ownerRepo_Nil: "ownerRepo srv m sid [] = []"
  by (simp add: ownerRepo_def)



lemma handleGetPRComments_missing_number:
  assumes "autoResolve m sid (TrimSpace (ownerRepo srv m sid (TrimSpace (stringArg A ''repo''))))
             (prNumberOf A) (t_lookup clk) = (m1, Inr r)"
    and "TrimSpace r \<noteq> []" and "prNumberOf A \<le> 0"
  shows "handleGetPRComments srv clk m sid A =
     respond (SetPendingIntent m1 sid ''get_pr_comments'' A (t_write clk))
       (''Which PR number in '' @ TrimSpace r @ ''?'') ''clarify''"
  using assms by (simp add: handleGetPRComments_def Let_def)

lemma handleGetPRComments_ready:
  assumes "autoResolve m sid (TrimSpace (ownerRepo srv m sid (TrimSpace (stringArg A ''repo''))))
             (prNumberOf A) (t_lookup clk) = (m1, Inr r)"
    and "TrimSpace r \<noteq> []" and "0 < prNumberOf A"
  shows "handleGetPRComments srv clk m sid A =
     (if TrimSpace (getGitHubToken srv sid) = []
      then respond m1 replyNeedAuthComments ''require_github_auth''
      else case GetPRComments (mcp srv) (getGitHubToken srv sid) (TrimSpace r) (prNumberOf A) of
             Inl err \<Rightarrow>
               (respond m1 replyCommentsFailed ''error'')
                 \<lparr>out_call := Some (CallGetPRComments (getGitHubToken srv sid) (TrimSpace r)
                                      (prNumberOf A), m1)\<rparr>
           | Inr comments \<Rightarrow>
               \<lparr> out_store = ClearPendingIntent m1 sid,
                 out_reply = ''I found '' @ itoa (int (length comments))
                   @ '' comment(s) on GitHub pull request '' @ TrimSpace r @ ''#''
                   @ itoa (prNumberOf A) @ ''.'',
                 out_intent = Some \<lparr>ir_Type = ''show_comments'',
                   ir_Payload = Some [''repo'' \<mapsto> VString (TrimSpace r),
                     ''prNumber'' \<mapsto> VInt (prNumberOf A), ''comments'' \<mapsto> VComments comments]\<rparr>,
                 out_ok = True,
                 out_call = Some (CallGetPRComments (getGitHubToken srv sid) (TrimSpace r)
                                    (prNumberOf A), m1) \<rparr>)"
  using assms by (simp add: handleGetPRComments_def Let_def)



lemma handleMergePR_missing_number:
  assumes "autoResolve m sid (ownerRepo srv m sid (TrimSpace (stringArg A ''repo'')))
             (prNumberOf A) (t_lookup clk) = (m1, Inr r)"
    and "r \<noteq> []" and "prNumberOf A \<le> 0"
  shows "handleMergePR srv clk m sid A =
     respond (SetPendingIntent m1 sid ''merge_pr'' A (t_write clk))
       (''Which PR number in '' @ r @ ''?'') ''clarify''"
  using assms by (simp add: handleMergePR_def Let_def)

lemma handleMergePR_ready:
  assumes "autoResolve m sid (ownerRepo srv m sid (TrimSpace (stringArg A ''repo'')))
             (prNumberOf A) (t_lookup clk) = (m1, Inr r)"
    and "r \<noteq> []" and "0 < prNumberOf A"
  shows "handleMergePR srv clk m sid A =
     (if TrimSpace (getGitHubToken srv sid) = []
      then respond m1 replyNeedAuthMerge ''require_github_auth''
      else case MergePR (mcp srv) (getGitHubToken srv sid) r (prNumberOf A) (mergeMethod A) of
             Some err \<Rightarrow>
               (respond m1 replyMergeFailed ''error'')
                 \<lparr>out_call := Some (CallMergePR (getGitHubToken srv sid) r (prNumberOf A)
                                      (mergeMethod A), m1)\<rparr>
           | None \<Rightarrow>
               \<lparr> out_store = ClearPendingIntent m1 sid,
                 out_reply = ''Successfully merged GitHub pull request '' @ r @ ''#''
                   @ itoa (prNumberOf A) @ '' using '' @ mergeMethod A @ '' method.'',
                 out_intent = Some \<lparr>ir_Type = ''merged'',
                   ir_Payload = Some [''repo'' \<mapsto> VString r,
                     ''prNumber'' \<mapsto> VInt (prNumberOf A), ''method'' \<mapsto> VString (mergeMethod A)]\<rparr>,
                 out_ok = True,
                 out_call = Some (CallMergePR (getGitHubToken srv sid) r (prNumberOf A)
                                    (mergeMethod A), m1) \<rparr>)"
  using assms by (simp add: handleMergePR_def Let_def)




lemma comments_bare_number:
  assumes norepo: "TrimSpace (stringArg A ''repo'') = []"
    and num: "0 < prNumberOf A"
    and cache: "GetLastPRs m sid (t_lookup clk) = (m2, refs, True)"
  shows "autoResolve m sid (TrimSpace (ownerRepo srv m sid (TrimSpace (stringArg A ''repo''))))
           (prNumberOf A) (t_lookup clk) =
     (m2, if length (matchesOf refs (prNumberOf A)) = 1 then Inr (matchesOf refs (prNumberOf A) ! 0)
          else if 1 < length (matchesOf refs (prNumberOf A)) then Inl (matchesOf refs (prNumberOf A))
          else Inr [])"
  using autoResolve_cached[OF num cache] norepo by (simp add: ownerRepo_Nil TrimSpace_Nil)

lemma merge_bare_number:
  assumes norepo: "TrimSpace (stringArg A ''repo'') = []"
    and num: "0 < prNumberOf A"
    and cache: "GetLastPRs m sid (t_lookup clk) = (m2, refs, True)"
  shows "autoResolve m sid (ownerRepo srv m sid (TrimSpace (stringArg A ''repo'')))
           (prNumberOf A) (t_lookup clk) =
     (m2, if length (matchesOf refs (prNumberOf A)) = 1 then Inr (matchesOf refs (prNumberOf A) ! 0)
          else if 1 < length (matchesOf refs (prNumberOf A)) then Inl (matchesOf refs (prNumberOf A))
          else Inr [])"
  using autoResolve_cached[OF num cache] norepo by (simp add: ownerRepo_Nil)



lemma comments_one_match:
  assumes "TrimSpace (stringArg A ''repo'') = []" and "0 < prNumberOf A"
    and "GetLastPRs m sid (t_lookup clk) = (m2, refs, True)"
    and "matchesOf refs (prNumberOf A) = [c]" and "TrimSpace c \<noteq> []"
  shows "out_call (handleGetPRComments srv clk m sid A) =
       (if TrimSpace (getGitHubToken srv sid) = [] then None
        else Some (CallGetPRComments (getGitHubToken srv sid) (TrimSpace c) (prNumberOf A), m2))
     \<and> map_option ir_Type (out_intent (handleGetPRComments srv clk m sid A))
         \<in> {Some ''require_github_auth'', Some ''error'', Some ''show_comments''}
     \<and> out_store (handleGetPRComments srv clk m sid A) \<in> {m2, ClearPendingIntent m2 sid}"
proof -
  have "autoResolve m sid (TrimSpace (ownerRepo srv m sid (TrimSpace (stringArg A ''repo''))))
           (prNumberOf A) (t_lookup clk) = (m2, Inr c)"
    using comments_bare_number[OF assms(1,2,3), of srv] assms(4) by auto
  from handleGetPRComments_ready[OF this assms(5) assms(2)]
  show ?thesis by (simp add: respond_def split: sum.splits)
qed





lemma mergePending_none:
  "pendingBySession m sid = None \<Longrightarrow> mergePending m sid ci now = (m, ci_Type ci, ci_Args ci)"
  by (simp add: mergePending_def GetPendingIntent_def Let_def)

lemma stListed_cache: "GetLastPRs stListed ''s_1'' 11 = (stListed, refsEx, True)"
  by (simp add: stListed_def GetLastPRs_def SetLastPRs_def lastPRsTTL_def Minute_def)

lemma stListed_merge:
  "mergePending stListed ''s_1'' (ciComments n) (t_pending clkEx) =
     (stListed, ''get_pr_comments'', [''pr_number'' \<mapsto> VFloat64 n])"
  by (simp add: mergePending_none stListed_def SetLastPRs_def NewMemoryStore_def ciComments_def)



lemma prNumberOf_float: "prNumberOf [''pr_number'' \<mapsto> VFloat64 (of_int k)] = k"
  by (simp add: prNumberOf_def int_of_float64_def)

lemma no_repo_arg: "TrimSpace (stringArg [''pr_number'' \<mapsto> v] ''repo'') = []"
  by (simp add: stringArg_def TrimSpace_Nil)

lemma token_srvUp: "getGitHubToken srvUp sid = ''tok''" "getGitHubToken srvDown sid = ''tok''"
  by (simp_all add: getGitHubToken_def srvUp_def srvDown_def)

lemma trimmed_tok: "TrimSpace ''tok'' = ''tok''" "TrimSpace ''A/x'' = ''A/x''"
  by (rule TrimSpace_trimmed, simp add: trimmed_def spaceLen_def space1_def space2_def space3_def)+

lemma argsInModel_number: "fitsInt (int_of_float64 n) \<Longrightarrow> argsInModel [''pr_number'' \<mapsto> VFloat64 n]"
  by (simp add: argsInModel_def stringArg_def asciiOnly_def)

lemma fits_small: "fitsInt (int_of_float64 7)" "fitsInt (int_of_float64 9)" "fitsInt (int_of_float64 42)"
  by (simp_all add: fitsInt_def int_of_float64_def)



section \<open>The listing intents\<close>

lemma lastPRsBySession_GetPendingIntent [simp]:
  "lastPRsBySession (fst (GetPendingIntent m sid now)) = lastPRsBySession m"
  by (simp add: GetPendingIntent_def split: option.splits)

lemma handleListPRs_success:
  assumes "TrimSpace (getGitHubToken srv sid) \<noteq> []"
    and "(if T = ''list_prs_mine'' then ListUserPRs (mcp srv) (getGitHubToken srv sid)
          else ListPRsForReview (mcp srv) (getGitHubToken srv sid)) = Inr prs"
  shows "out_store (handleListPRs srv clk m sid T) =
       ClearPendingIntent
         (if prs = [] then m
          else SetLastPRs m sid
                 (map (\<lambda>p. \<lparr>Number = pr_Number p, Repository = pr_Repository p\<rparr>) prs)
                 (t_write clk)) sid
     \<and> map_option ir_Type (out_intent (handleListPRs srv clk m sid T)) = Some ''show_prs''
     \<and> out_reply (handleListPRs srv clk m sid T) =
         formatPRListReply (if T = ''list_prs_review'' then IntentListReview else IntentListMine)
           prs"
  using assms by (simp add: handleListPRs_def Let_def)

text \<open>
  C3, as amended. A listing intent, a credential, and a provider that answers with a
  list: the store after the turn has no pending intent for the session and the response
  shows the PRs. When the list is empty the cached PR lists are those of before the turn:
  the cache of the session is not replaced. When the list is not empty the cache of the
  session holds the number and repository of each listed PR, written at the time of the
  write.
\<close>

theorem listing_replaces_cache_when_not_empty:
  assumes "ci_Type ci = ''list_prs_mine'' \<or> ci_Type ci = ''list_prs_review''"
    and "TrimSpace (getGitHubToken srv sessionID) \<noteq> []"
    and "(if ci_Type ci = ''list_prs_mine''
          then ListUserPRs (mcp srv) (getGitHubToken srv sessionID)
          else ListPRsForReview (mcp srv) (getGitHubToken srv sessionID)) = Inr prs"
    and "out = handleWithArgs srv clk m sessionID ci"
  shows "pendingBySession (out_store out) sessionID = None
    \<and> map_option ir_Type (out_intent out) = Some ''show_prs''
    \<and> (prs = [] \<longrightarrow> lastPRsBySession (out_store out) = lastPRsBySession m)
    \<and> (prs \<noteq> [] \<longrightarrow>
         lastPRsBySession (out_store out) =
           (lastPRsBySession m)(sessionID \<mapsto>
              \<lparr>PRs = map (\<lambda>p. \<lparr>Number = pr_Number p, Repository = pr_Repository p\<rparr>) prs,
                lp_UpdatedAt = t_write clk\<rparr>))"
  using handleListPRs_success[OF assms(2,3), of clk "fst (GetPendingIntent m sessionID (t_pending clk))"]
    handleWithArgs_list[OF assms(1), of srv clk m sessionID] assms(4)
  by (simp add: ClearPendingIntent_def SetLastPRs_def)

lemma stListed_no_pending: "pendingBySession stListed sid = None"
  by (simp add: stListed_def SetLastPRs_def NewMemoryStore_def)

theorem listing_replaces_cache_when_not_empty_witness:
  "pendingBySession (out_store (handleWithArgs srvUp clkEx stListed ''s_1'' ciListMine)) ''s_1''
     = None
   \<and> lastPRsBySession (out_store (handleWithArgs srvUp clkEx stListed ''s_1'' ciListMine))
     = lastPRsBySession stListed"
proof -
  have a: "ci_Type ciListMine = ''list_prs_mine'' \<or> ci_Type ciListMine = ''list_prs_review''"
    by (simp add: ciListMine_def)
  have t: "TrimSpace (getGitHubToken srvUp ''s_1'') \<noteq> []"
    by (simp add: token_srvUp trimmed_tok)
  have l: "(if ci_Type ciListMine = ''list_prs_mine''
            then ListUserPRs (mcp srvUp) (getGitHubToken srvUp ''s_1'')
            else ListPRsForReview (mcp srvUp) (getGitHubToken srvUp ''s_1'')) = Inr []"
    by (simp add: srvUp_def mcpUp_def)
  from listing_replaces_cache_when_not_empty[OF a t l refl, of clkEx stListed]
  show ?thesis by simp
qed

text \<open>
  C3 as stated fails: the session has the three cached references, the listing succeeds
  with an empty list, and afterwards the cache still holds the three references and a
  read still returns them.
\<close>

theorem empty_listing_keeps_cache_counterexample:
  "ListUserPRs (mcp srvUp) (getGitHubToken srvUp ''s_1'') = Inr []
   \<and> map_option ir_Type (out_intent (handleWithArgs srvUp clkEx stListed ''s_1'' ciListMine))
     = Some ''show_prs''
   \<and> lastPRsBySession (out_store (handleWithArgs srvUp clkEx stListed ''s_1'' ciListMine)) ''s_1''
     = Some \<lparr>PRs = refsEx, lp_UpdatedAt = 0\<rparr>
   \<and> snd (GetLastPRs (out_store (handleWithArgs srvUp clkEx stListed ''s_1'' ciListMine)) ''s_1'' 13)
     = (refsEx, True)"
proof -
  have l: "ListUserPRs (mcp srvUp) (getGitHubToken srvUp ''s_1'') = Inr []"
    by (simp add: srvUp_def mcpUp_def)
  have t: "TrimSpace (getGitHubToken srvUp ''s_1'') \<noteq> []"
    by (simp add: token_srvUp trimmed_tok)
  have h: "handleWithArgs srvUp clkEx stListed ''s_1'' ciListMine =
      handleListPRs srvUp clkEx (fst (GetPendingIntent stListed ''s_1'' (t_pending clkEx))) ''s_1''
        ''list_prs_mine''"
    using handleWithArgs_list[of ciListMine srvUp clkEx stListed "''s_1''"]
    by (simp add: ciListMine_def)
  have g: "fst (GetPendingIntent stListed ''s_1'' (t_pending clkEx)) = stListed"
    by (simp add: GetPendingIntent_def stListed_no_pending)
  have s: "out_store (handleWithArgs srvUp clkEx stListed ''s_1'' ciListMine) =
      ClearPendingIntent stListed ''s_1''"
    and i: "map_option ir_Type (out_intent (handleWithArgs srvUp clkEx stListed ''s_1'' ciListMine))
      = Some ''show_prs''"
    using handleListPRs_success[of srvUp "''s_1''" "''list_prs_mine''" "[]" clkEx stListed] l t h g
    by simp_all
  show ?thesis
    unfolding s using l i
    by (simp add: ClearPendingIntent_def stListed_def SetLastPRs_def GetLastPRs_def
        lastPRsTTL_def Minute_def)
qed

section \<open>A repository that is named\<close>

lemma ownerRepo_trimmed:
  assumes "repo = TrimSpace x" and "repo \<noteq> []"
    and "owner = (if TrimSpace (GetUsername m sid) = []
                  then TrimSpace (cfg_DefaultRepoOwner (cfg srv))
                  else TrimSpace (GetUsername m sid))"
    and "full = (if Contains repo ''/'' \<or> owner = [] then repo else owner @ ''/'' @ repo)"
  shows "ownerRepo srv m sid repo = full \<and> trimmed full \<and> full \<noteq> []"
proof -
  have r: "trimmed repo" using assms(1) by (simp add: trimmed_TrimSpace)
  have o: "trimmed owner" using assms(3) by (simp add: trimmed_TrimSpace)
  have "ownerRepo srv m sid repo = full"
    using assms(2,3,4) by (auto simp: ownerRepo_def Let_def)
  moreover have "trimmed full"
    using assms(2,4) r o trimmed_slash[of owner repo] by auto
  moreover have "full \<noteq> []" using assms(2,4) by auto
  ultimately show ?thesis by simp
qed

lemma comments_named_repo:
  assumes "TrimSpace (stringArg A ''repo'') = repo" and "repo \<noteq> []"
    and "owner = (if TrimSpace (GetUsername m sid) = []
                  then TrimSpace (cfg_DefaultRepoOwner (cfg srv))
                  else TrimSpace (GetUsername m sid))"
    and "full = (if Contains repo ''/'' \<or> owner = [] then repo else owner @ ''/'' @ repo)"
  shows "autoResolve m sid (TrimSpace (ownerRepo srv m sid (TrimSpace (stringArg A ''repo''))))
           (prNumberOf A) (t_lookup clk) = (m, Inr full) \<and> TrimSpace full = full \<and> full \<noteq> []"
proof -
  have f: "ownerRepo srv m sid repo = full \<and> trimmed full \<and> full \<noteq> []"
    using ownerRepo_trimmed[OF assms(1)[symmetric] assms(2,3,4)] .
  then have "TrimSpace full = full" by (simp add: TrimSpace_trimmed)
  then show ?thesis using f assms(1) by (simp add: autoResolve_given)
qed

lemma merge_named_repo:
  assumes "TrimSpace (stringArg A ''repo'') = repo" and "repo \<noteq> []"
    and "owner = (if TrimSpace (GetUsername m sid) = []
                  then TrimSpace (cfg_DefaultRepoOwner (cfg srv))
                  else TrimSpace (GetUsername m sid))"
    and "full = (if Contains repo ''/'' \<or> owner = [] then repo else owner @ ''/'' @ repo)"
  shows "autoResolve m sid (ownerRepo srv m sid (TrimSpace (stringArg A ''repo'')))
           (prNumberOf A) (t_lookup clk) = (m, Inr full) \<and> full \<noteq> []"
proof -
  have f: "ownerRepo srv m sid repo = full \<and> trimmed full \<and> full \<noteq> []"
    using ownerRepo_trimmed[OF assms(1)[symmetric] assms(2,3,4)] .
  then show ?thesis using assms(1) by (simp add: autoResolve_given)
qed

text \<open>
  The outcome of the two branches for a repository that is named, as a function of the
  store they start from: the cached PR lists do not occur in it.
\<close>

lemma named_repo_outcome:
  assumes "T = ''get_pr_comments'' \<or> T = ''merge_pr''"
    and "TrimSpace (stringArg A ''repo'') = repo" and "repo \<noteq> []"
    and "owner = (if TrimSpace (GetUsername m sid) = []
                  then TrimSpace (cfg_DefaultRepoOwner (cfg srv))
                  else TrimSpace (GetUsername m sid))"
    and "full = (if Contains repo ''/'' \<or> owner = [] then repo else owner @ ''/'' @ repo)"
    and "out = (if T = ''get_pr_comments'' then handleGetPRComments srv clk m sid A
                else handleMergePR srv clk m sid A)"
    and "token = getGitHubToken srv sid"
  shows "(prNumberOf A \<le> 0 \<longrightarrow>
           out = respond (SetPendingIntent m sid T A (t_write clk))
                   (''Which PR number in '' @ full @ ''?'') ''clarify'')
    \<and> (0 < prNumberOf A \<longrightarrow>
          out_call out =
            (if TrimSpace token = [] then None
             else Some (if T = ''get_pr_comments''
                        then CallGetPRComments token full (prNumberOf A)
                        else CallMergePR token full (prNumberOf A) (mergeMethod A), m))
          \<and> map_option ir_Type (out_intent out)
              \<in> {Some ''require_github_auth'', Some ''error'', Some ''show_comments'',
                  Some ''merged''}
          \<and> out_store out \<in> {m, ClearPendingIntent m sid})"
proof (cases "T = ''get_pr_comments''")
  case True
  have a: "autoResolve m sid (TrimSpace (ownerRepo srv m sid (TrimSpace (stringArg A ''repo''))))
           (prNumberOf A) (t_lookup clk) = (m, Inr full)"
    and b: "TrimSpace full = full" and c: "full \<noteq> []"
    using comments_named_repo[OF assms(2,3,4,5), of clk] by simp_all
  have c': "TrimSpace full \<noteq> []" using b c by simp
  show ?thesis
  proof (cases "prNumberOf A \<le> 0")
    case le: True
    from handleGetPRComments_missing_number[OF a c' le] True assms(6) b le
    show ?thesis by simp
  next
    case False
    then have n: "0 < prNumberOf A" by simp
    from handleGetPRComments_ready[OF a c' n] True assms(6,7) b n
    show ?thesis by (simp add: respond_def split: sum.splits)
  qed
next
  case False
  then have T: "T = ''merge_pr''" using assms(1) by simp
  have a: "autoResolve m sid (ownerRepo srv m sid (TrimSpace (stringArg A ''repo'')))
           (prNumberOf A) (t_lookup clk) = (m, Inr full)"
    and c: "full \<noteq> []"
    using merge_named_repo[OF assms(2,3,4,5), of clk] by simp_all
  show ?thesis
  proof (cases "prNumberOf A \<le> 0")
    case le: True
    from handleMergePR_missing_number[OF a c le] T assms(6) le
    show ?thesis by simp
  next
    case False
    then have n: "0 < prNumberOf A" by simp
    from handleMergePR_ready[OF a c n] T assms(6,7) n
    show ?thesis by (simp add: respond_def split: option.splits)
  qed
qed

lemma GetPendingIntent_store_kept:
  "pendingBySession m sid = None \<or>
   (\<exists>p. pendingBySession m sid = Some p \<and> now - pi_UpdatedAt p \<le> pendingTTL) \<Longrightarrow>
   fst (GetPendingIntent m sid now) = m"
  by (auto simp: GetPendingIntent_def)

lemma mergePending_store_eq:
  "mergePending m sid ci now = (m1, T, A) \<Longrightarrow> m1 = fst (GetPendingIntent m sid now)"
  using mergePending_store[of m sid ci now] by simp

lemma handleListPRs_failed:
  assumes "TrimSpace (getGitHubToken srv sid) \<noteq> []"
    and "isl (if T = ''list_prs_mine'' then ListUserPRs (mcp srv) (getGitHubToken srv sid)
              else ListPRsForReview (mcp srv) (getGitHubToken srv sid))"
  shows "handleListPRs srv clk m sid T =
     (respond m replyListFailed ''error'')
       \<lparr>out_call := Some (if T = ''list_prs_mine'' then CallListUserPRs (getGitHubToken srv sid)
                          else CallListPRsForReview (getGitHubToken srv sid), m)\<rparr>"
  using assms by (auto simp: handleListPRs_def Let_def isl_def)

lemma comments_ready_failed:
  assumes "autoResolve m sid (TrimSpace (ownerRepo srv m sid (TrimSpace (stringArg A ''repo''))))
             (prNumberOf A) (t_lookup clk) = (m1, Inr r)"
    and "TrimSpace r \<noteq> []" and "0 < prNumberOf A"
    and "TrimSpace (getGitHubToken srv sid) \<noteq> []"
    and "isl (GetPRComments (mcp srv) (getGitHubToken srv sid) (TrimSpace r) (prNumberOf A))"
  shows "handleGetPRComments srv clk m sid A =
     (respond m1 replyCommentsFailed ''error'')
       \<lparr>out_call := Some (CallGetPRComments (getGitHubToken srv sid) (TrimSpace r)
                            (prNumberOf A), m1)\<rparr>"
  using assms(4,5) by (auto simp: handleGetPRComments_ready[OF assms(1,2,3)] isl_def)

lemma merge_ready_failed:
  assumes "autoResolve m sid (ownerRepo srv m sid (TrimSpace (stringArg A ''repo'')))
             (prNumberOf A) (t_lookup clk) = (m1, Inr r)"
    and "r \<noteq> []" and "0 < prNumberOf A"
    and "TrimSpace (getGitHubToken srv sid) \<noteq> []"
    and "MergePR (mcp srv) (getGitHubToken srv sid) r (prNumberOf A) (mergeMethod A) \<noteq> None"
  shows "handleMergePR srv clk m sid A =
     (respond m1 replyMergeFailed ''error'')
       \<lparr>out_call := Some (CallMergePR (getGitHubToken srv sid) r (prNumberOf A)
                            (mergeMethod A), m1)\<rparr>"
  using assms(4,5) by (auto simp: handleMergePR_ready[OF assms(1,2,3)])

lemma usernameBySession_GetPendingIntent:
  "usernameBySession (fst (GetPendingIntent m sid now)) = usernameBySession m"
  by (simp add: GetPendingIntent_def split: option.splits)

lemma GetUsername_mergePending:
  assumes "mergePending m sid ci now = (m1, T, A)"
  shows "GetUsername m1 k = GetUsername m k"
  using mergePending_store_eq[OF assms]
  by (simp add: GetUsername_def usernameBySession_GetPendingIntent)

lemma lastPRs_mergePending:
  assumes "mergePending m sid ci now = (m1, T, A)"
  shows "lastPRsBySession m1 = lastPRsBySession m"
  using mergePending_store_eq[OF assms] by simp

text \<open>
  C10, as amended. The merged intent is get_pr_comments or merge_pr and its repository
  argument is not blank: \<open>repo\<close> is that argument with the surrounding white space
  removed. The owner is the trimmed user name of the session or, when that is blank, the
  trimmed default owner of the configuration. A \<open>repo\<close> without a slash gets the owner
  in front when there is one; otherwise \<open>repo\<close> goes on as it is. With a PR number the
  provider is called with that repository (when a credential is there); without one the
  turn asks for the PR number in that repository. The block that looks at the cached PR
  lists is not entered: the resolver returns the repository and the store it was given,
  and the cached lists after the turn are those of before it, also an entry that has
  expired.
\<close>

theorem named_repository_gets_owner:
  assumes "mergePending m sessionID ci (t_pending clk) = (m1, targetType, mergedArgs)"
    and "targetType = ''get_pr_comments'' \<or> targetType = ''merge_pr''"
    and "argsInModel mergedArgs"
    and "repo = TrimSpace (stringArg mergedArgs ''repo'')" and "repo \<noteq> []"
    and "owner = (if TrimSpace (GetUsername m sessionID) = []
                  then TrimSpace (cfg_DefaultRepoOwner (cfg srv))
                  else TrimSpace (GetUsername m sessionID))"
    and "full = (if Contains repo ''/'' \<or> owner = [] then repo else owner @ ''/'' @ repo)"
    and "n = prNumberOf mergedArgs"
    and "out = handleWithArgs srv clk m sessionID ci"
    and "token = getGitHubToken srv sessionID"
  shows "(n \<le> 0 \<longrightarrow>
           out = respond (SetPendingIntent m1 sessionID targetType mergedArgs (t_write clk))
                   (''Which PR number in '' @ full @ ''?'') ''clarify'')
    \<and> (0 < n \<longrightarrow>
          out_call out =
            (if TrimSpace token = [] then None
             else Some (if targetType = ''get_pr_comments''
                        then CallGetPRComments token full n
                        else CallMergePR token full n (mergeMethod mergedArgs), m1))
          \<and> map_option ir_Type (out_intent out)
              \<in> {Some ''require_github_auth'', Some ''error'', Some ''show_comments'',
                  Some ''merged''}
          \<and> out_store out \<in> {m1, ClearPendingIntent m1 sessionID})
    \<and> autoResolve m1 sessionID full n (t_lookup clk) = (m1, Inr full)
    \<and> lastPRsBySession (out_store out) = lastPRsBySession m
    \<and> m1 = fst (GetPendingIntent m sessionID (t_pending clk))"
proof -
  have out: "out = (if targetType = ''get_pr_comments''
                    then handleGetPRComments srv clk m1 sessionID mergedArgs
                    else handleMergePR srv clk m1 sessionID mergedArgs)"
    using handleWithArgs_unfold[OF assms(1), of srv] assms(2,9) by auto
  have o: "owner = (if TrimSpace (GetUsername m1 sessionID) = []
                  then TrimSpace (cfg_DefaultRepoOwner (cfg srv))
                  else TrimSpace (GetUsername m1 sessionID))"
    using assms(6) GetUsername_mergePending[OF assms(1)] by simp
  have r: "TrimSpace (stringArg mergedArgs ''repo'') = repo" using assms(4) by simp
  note base = named_repo_outcome[OF assms(2) r assms(5) o assms(7) out assms(10)]
  have f: "full \<noteq> []"
    using ownerRepo_trimmed[OF assms(4,5) o assms(7)] by simp
  have ar: "autoResolve m1 sessionID full n (t_lookup clk) = (m1, Inr full)"
    using f by (simp add: autoResolve_given)
  have l1: "lastPRsBySession m1 = lastPRsBySession m"
    by (rule lastPRs_mergePending[OF assms(1)])
  have st: "lastPRsBySession (out_store out) = lastPRsBySession m"
  proof (cases "n \<le> 0")
    case True
    then show ?thesis using base assms(8) l1 by (simp add: respond_def SetPendingIntent_def)
  next
    case False
    then have "out_store out \<in> {m1, ClearPendingIntent m1 sessionID}"
      using base assms(8) by simp
    then show ?thesis using l1 by (auto simp: ClearPendingIntent_def)
  qed
  have s1: "m1 = fst (GetPendingIntent m sessionID (t_pending clk))"
    by (rule mergePending_store_eq[OF assms(1)])
  show ?thesis using base assms(8) ar st s1 by simp
qed

lemma stAlice_no_pending: "pendingBySession stAlice sid = None"
  by (simp add: stAlice_def SetUsername_def stListed_no_pending)

lemma stAlice_user: "GetUsername stAlice ''s_1'' = ''alice''"
  by (simp add: stAlice_def SetUsername_def GetUsername_def strAt_def)

lemma stAlice_cache: "GetLastPRs stAlice ''s_1'' 11 = (stAlice, refsEx, True)"
  by (simp add: stAlice_def SetUsername_def stListed_def GetLastPRs_def SetLastPRs_def
      lastPRsTTL_def Minute_def)

lemma trimmed_names:
  "TrimSpace ''alice'' = ''alice''" "TrimSpace ''widgets'' = ''widgets''"
  by (rule TrimSpace_trimmed, simp add: trimmed_def spaceLen_def space1_def space2_def space3_def)+

lemma TrimSpace_space: "TrimSpace '' '' = []"
proof -
  have "spaceLen False '' '' = 1" by (simp add: spaceLen_def space1_def)
  then have "dropSpace False '' '' = dropSpace False []"
    using dropSpace_step[of False "'' ''"] by simp
  also have "\<dots> = []" by (simp add: dropSpace_fix spaceLen_def)
  finally show ?thesis by (simp add: TrimSpace_def dropSpace_fix spaceLen_def)
qed

lemma argsInModel_ciRepo: "argsInModel (ci_Args (ciRepo r))"
  by (simp add: argsInModel_def ciRepo_def stringArg_def asciiOnly_def fitsInt_def
      int_of_float64_def)

lemma prNumberOf_ciRepo: "prNumberOf (ci_Args (ciRepo r)) = 9"
  by (simp add: prNumberOf_def ciRepo_def int_of_float64_def)

theorem named_repository_gets_owner_witness:
  "out_call (handleWithArgs srvUp clkEx stAlice ''s_1'' (ciRepo ''widgets'')) =
     Some (CallGetPRComments ''tok'' ''alice/widgets'' 9, stAlice)
   \<and> lastPRsBySession (out_store (handleWithArgs srvUp clkEx stAlice ''s_1'' (ciRepo ''widgets'')))
     = lastPRsBySession stAlice"
proof -
  have mp: "mergePending stAlice ''s_1'' (ciRepo ''widgets'') (t_pending clkEx) =
      (stAlice, ''get_pr_comments'', ci_Args (ciRepo ''widgets''))"
    using mergePending_none[OF stAlice_no_pending, of "''s_1''" "ciRepo ''widgets''"]
    by (simp add: ciRepo_def)
  have r: "''widgets'' = TrimSpace (stringArg (ci_Args (ciRepo ''widgets'')) ''repo'')"
    by (simp add: ciRepo_def stringArg_def trimmed_names)
  have o: "''alice'' = (if TrimSpace (GetUsername stAlice ''s_1'') = []
                  then TrimSpace (cfg_DefaultRepoOwner (cfg srvUp))
                  else TrimSpace (GetUsername stAlice ''s_1''))"
    by (simp add: stAlice_user trimmed_names)
  have f: "''alice/widgets'' =
      (if Contains ''widgets'' ''/'' \<or> ''alice'' = [] then ''widgets''
       else ''alice'' @ ''/'' @ ''widgets'')"
    by simp
  from named_repository_gets_owner[OF mp _ argsInModel_ciRepo r _ o f
      prNumberOf_ciRepo[symmetric] refl refl]
  show ?thesis by (simp add: token_srvUp trimmed_tok)
qed

text \<open>
  C10 as stated fails for a repository argument that is not empty but blank: a single
  space has no slash and the session has a user name, yet nothing is put in front of it,
  the cached PR lists are consulted, and the provider is called with the repository of
  the listed PR 9.
\<close>

theorem blank_repository_counterexample:
  "stringArg (ci_Args (ciRepo '' '')) ''repo'' = '' ''
   \<and> \<not> Contains '' '' ''/''
   \<and> GetUsername stAlice ''s_1'' = ''alice''
   \<and> out_call (handleWithArgs srvUp clkEx stAlice ''s_1'' (ciRepo '' '')) =
       Some (CallGetPRComments ''tok'' ''A/x'' 9, stAlice)"
proof -
  have mp: "mergePending stAlice ''s_1'' (ciRepo '' '') (t_pending clkEx) =
      (stAlice, ''get_pr_comments'', ci_Args (ciRepo '' ''))"
    using mergePending_none[OF stAlice_no_pending, of "''s_1''" "ciRepo '' ''"]
    by (simp add: ciRepo_def)
  have h: "handleWithArgs srvUp clkEx stAlice ''s_1'' (ciRepo '' '') =
      handleGetPRComments srvUp clkEx stAlice ''s_1'' (ci_Args (ciRepo '' ''))"
    using handleWithArgs_unfold[OF mp, of srvUp] by simp
  have r: "TrimSpace (stringArg (ci_Args (ciRepo '' '')) ''repo'') = []"
    by (simp add: ciRepo_def stringArg_def TrimSpace_space)
  have n: "0 < prNumberOf (ci_Args (ciRepo '' ''))" by (simp add: prNumberOf_ciRepo)
  have c: "GetLastPRs stAlice ''s_1'' (t_lookup clkEx) = (stAlice, refsEx, True)"
    using stAlice_cache by (simp add: clkEx_def)
  have one: "matchesOf refsEx (prNumberOf (ci_Args (ciRepo '' ''))) = [''A/x'']"
    by (simp add: prNumberOf_ciRepo matchesOf_def refsEx_def)
  have t: "TrimSpace ''A/x'' \<noteq> []" by (simp add: trimmed_tok)
  from comments_one_match[OF r n c one t, of srvUp] h
  have "out_call (handleWithArgs srvUp clkEx stAlice ''s_1'' (ciRepo '' '')) =
       Some (CallGetPRComments ''tok'' ''A/x'' 9, stAlice)"
    by (simp add: token_srvUp trimmed_tok prNumberOf_ciRepo)
  then show ?thesis
    by (simp add: ciRepo_def stringArg_def stAlice_user)
qed

section \<open>A provider that fails on a resolved intent\<close>

text \<open>
  C5. A turn with a credential whose intent is fully resolved: a listing intent; or
  get_pr_comments or merge_pr with a PR number \<open>n > 0\<close> and a repository that is either
  named in the arguments (\<open>full\<close>, the trimmed name with its owner) or found as the one
  cached PR of that number. When the provider call of that intent fails, the outcome is
  the error response: the fixed failure text, an intent of type error without payload,
  and the store \<open>m1\<close> that the first read of the pending intent has left. That store has
  the cached PR lists of the store the turn started with, and it is that store unless a
  pending intent of the session had expired at the read. So nothing is written after a
  failed call. The last part says the same of whatever call a turn has made.
\<close>

theorem provider_failure_keeps_state:
  assumes "mergePending m sessionID ci (t_pending clk) = (m1, targetType, mergedArgs)"
    and "argsInModel mergedArgs"
    and "token = getGitHubToken srv sessionID" and "TrimSpace token \<noteq> []"
    and "out = handleWithArgs srv clk m sessionID ci"
    and "n = prNumberOf mergedArgs"
    and "repo = TrimSpace (stringArg mergedArgs ''repo'')"
    and "owner = (if TrimSpace (GetUsername m sessionID) = []
                  then TrimSpace (cfg_DefaultRepoOwner (cfg srv))
                  else TrimSpace (GetUsername m sessionID))"
    and "full = (if Contains repo ''/'' \<or> owner = [] then repo else owner @ ''/'' @ repo)"
  shows "(targetType = ''list_prs_mine'' \<and> isl (ListUserPRs (mcp srv) token) \<longrightarrow>
           out = (respond m1 replyListFailed ''error'')
                   \<lparr>out_call := Some (CallListUserPRs token, m1)\<rparr>)
    \<and> (targetType = ''list_prs_review'' \<and> isl (ListPRsForReview (mcp srv) token) \<longrightarrow>
           out = (respond m1 replyListFailed ''error'')
                   \<lparr>out_call := Some (CallListPRsForReview token, m1)\<rparr>)
    \<and> (targetType = ''get_pr_comments'' \<and> repo \<noteq> [] \<and> 0 < n \<and>
         isl (GetPRComments (mcp srv) token full n) \<longrightarrow>
           out = (respond m1 replyCommentsFailed ''error'')
                   \<lparr>out_call := Some (CallGetPRComments token full n, m1)\<rparr>)
    \<and> (targetType = ''merge_pr'' \<and> repo \<noteq> [] \<and> 0 < n \<and>
         MergePR (mcp srv) token full n (mergeMethod mergedArgs) \<noteq> None \<longrightarrow>
           out = (respond m1 replyMergeFailed ''error'')
                   \<lparr>out_call := Some (CallMergePR token full n (mergeMethod mergedArgs), m1)\<rparr>)
    \<and> (\<forall>refs c. targetType = ''get_pr_comments'' \<and> repo = [] \<and> 0 < n \<and>
         GetLastPRs m1 sessionID (t_lookup clk) = (m1, refs, True) \<and>
         matchesOf refs n = [c] \<and> TrimSpace c \<noteq> [] \<and>
         isl (GetPRComments (mcp srv) token (TrimSpace c) n) \<longrightarrow>
           out = (respond m1 replyCommentsFailed ''error'')
                   \<lparr>out_call := Some (CallGetPRComments token (TrimSpace c) n, m1)\<rparr>)
    \<and> (\<forall>refs c. targetType = ''merge_pr'' \<and> repo = [] \<and> 0 < n \<and>
         GetLastPRs m1 sessionID (t_lookup clk) = (m1, refs, True) \<and>
         matchesOf refs n = [c] \<and> c \<noteq> [] \<and>
         MergePR (mcp srv) token c n (mergeMethod mergedArgs) \<noteq> None \<longrightarrow>
           out = (respond m1 replyMergeFailed ''error'')
                   \<lparr>out_call := Some (CallMergePR token c n (mergeMethod mergedArgs), m1)\<rparr>)
    \<and> m1 = fst (GetPendingIntent m sessionID (t_pending clk))
    \<and> lastPRsBySession m1 = lastPRsBySession m
    \<and> (pendingBySession m sessionID = None \<or>
        (\<exists>p. pendingBySession m sessionID = Some p \<and>
             t_pending clk - pi_UpdatedAt p \<le> pendingTTL) \<longrightarrow> m1 = m)
    \<and> (\<forall>made m0. out_call out = Some (made, m0) \<and> providerFailed (mcp srv) made \<longrightarrow>
          out_store out = m0
          \<and> out_intent out = Some \<lparr>ir_Type = ''error'', ir_Payload = None\<rparr>
          \<and> out_reply out \<in> {replyListFailed, replyCommentsFailed, replyMergeFailed}
          \<and> out_ok out)"
proof -
  note u = handleWithArgs_unfold[OF assms(1), of srv]
  have tok: "TrimSpace (getGitHubToken srv sessionID) \<noteq> []" using assms(3,4) by simp
  have o: "owner = (if TrimSpace (GetUsername m1 sessionID) = []
                  then TrimSpace (cfg_DefaultRepoOwner (cfg srv))
                  else TrimSpace (GetUsername m1 sessionID))"
    using assms(8) GetUsername_mergePending[OF assms(1)] by simp
  have r: "TrimSpace (stringArg mergedArgs ''repo'') = repo" using assms(7) by simp
  have l1: "targetType = ''list_prs_mine'' \<and> isl (ListUserPRs (mcp srv) token) \<longrightarrow>
           out = (respond m1 replyListFailed ''error'')
                   \<lparr>out_call := Some (CallListUserPRs token, m1)\<rparr>"
    using handleListPRs_failed[OF tok, of "''list_prs_mine''" clk m1] u assms(3,5) by simp
  have l2: "targetType = ''list_prs_review'' \<and> isl (ListPRsForReview (mcp srv) token) \<longrightarrow>
           out = (respond m1 replyListFailed ''error'')
                   \<lparr>out_call := Some (CallListPRsForReview token, m1)\<rparr>"
    using handleListPRs_failed[OF tok, of "''list_prs_review''" clk m1] u assms(3,5) by simp
  have c1: "targetType = ''get_pr_comments'' \<and> repo \<noteq> [] \<and> 0 < n \<and>
         isl (GetPRComments (mcp srv) token full n) \<longrightarrow>
           out = (respond m1 replyCommentsFailed ''error'')
                   \<lparr>out_call := Some (CallGetPRComments token full n, m1)\<rparr>"
  proof (intro impI, elim conjE)
    assume T: "targetType = ''get_pr_comments''" and rn: "repo \<noteq> []" and n: "0 < n"
      and f: "isl (GetPRComments (mcp srv) token full n)"
    have a: "autoResolve m1 sessionID
               (TrimSpace (ownerRepo srv m1 sessionID (TrimSpace (stringArg mergedArgs ''repo''))))
               (prNumberOf mergedArgs) (t_lookup clk) = (m1, Inr full)"
      and b: "TrimSpace full = full" and c: "full \<noteq> []"
      using comments_named_repo[OF r rn o assms(9), of clk] by simp_all
    have c': "TrimSpace full \<noteq> []" using b c by simp
    have n': "0 < prNumberOf mergedArgs" using n assms(6) by simp
    from comments_ready_failed[OF a c' n' tok] f b assms(3,6) u T assms(5)
    show "out = (respond m1 replyCommentsFailed ''error'')
                   \<lparr>out_call := Some (CallGetPRComments token full n, m1)\<rparr>" by simp
  qed
  have m1': "targetType = ''merge_pr'' \<and> repo \<noteq> [] \<and> 0 < n \<and>
         MergePR (mcp srv) token full n (mergeMethod mergedArgs) \<noteq> None \<longrightarrow>
           out = (respond m1 replyMergeFailed ''error'')
                   \<lparr>out_call := Some (CallMergePR token full n (mergeMethod mergedArgs), m1)\<rparr>"
  proof (intro impI, elim conjE)
    assume T: "targetType = ''merge_pr''" and rn: "repo \<noteq> []" and n: "0 < n"
      and f: "MergePR (mcp srv) token full n (mergeMethod mergedArgs) \<noteq> None"
    have a: "autoResolve m1 sessionID
               (ownerRepo srv m1 sessionID (TrimSpace (stringArg mergedArgs ''repo'')))
               (prNumberOf mergedArgs) (t_lookup clk) = (m1, Inr full)"
      and c: "full \<noteq> []"
      using merge_named_repo[OF r rn o assms(9), of clk] by simp_all
    have n': "0 < prNumberOf mergedArgs" using n assms(6) by simp
    have f': "MergePR (mcp srv) (getGitHubToken srv sessionID) full (prNumberOf mergedArgs)
                (mergeMethod mergedArgs) \<noteq> None"
      using f assms(3,6) by simp
    from merge_ready_failed[OF a c n' tok f'] assms(3,6) u T assms(5)
    show "out = (respond m1 replyMergeFailed ''error'')
                   \<lparr>out_call := Some (CallMergePR token full n (mergeMethod mergedArgs), m1)\<rparr>"
      by simp
  qed
  have c2: "targetType = ''get_pr_comments'' \<and> repo = [] \<and> 0 < n \<and>
         GetLastPRs m1 sessionID (t_lookup clk) = (m1, refs, True) \<and>
         matchesOf refs n = [c] \<and> TrimSpace c \<noteq> [] \<and>
         isl (GetPRComments (mcp srv) token (TrimSpace c) n) \<longrightarrow>
           out = (respond m1 replyCommentsFailed ''error'')
                   \<lparr>out_call := Some (CallGetPRComments token (TrimSpace c) n, m1)\<rparr>" for refs c
  proof (intro impI, elim conjE)
    assume T: "targetType = ''get_pr_comments''" and rn: "repo = []" and n: "0 < n"
      and g: "GetLastPRs m1 sessionID (t_lookup clk) = (m1, refs, True)"
      and one: "matchesOf refs n = [c]" and c: "TrimSpace c \<noteq> []"
      and f: "isl (GetPRComments (mcp srv) token (TrimSpace c) n)"
    have r0: "TrimSpace (stringArg mergedArgs ''repo'') = []" using r rn by simp
    have n': "0 < prNumberOf mergedArgs" using n assms(6) by simp
    have a: "autoResolve m1 sessionID
               (TrimSpace (ownerRepo srv m1 sessionID (TrimSpace (stringArg mergedArgs ''repo''))))
               (prNumberOf mergedArgs) (t_lookup clk) = (m1, Inr c)"
      using comments_bare_number[OF r0 n' g, of srv] one assms(6) by auto
    have f': "isl (GetPRComments (mcp srv) (getGitHubToken srv sessionID) (TrimSpace c)
                (prNumberOf mergedArgs))"
      using f assms(3,6) by simp
    from comments_ready_failed[OF a c n' tok f'] assms(3,6) u T assms(5)
    show "out = (respond m1 replyCommentsFailed ''error'')
                   \<lparr>out_call := Some (CallGetPRComments token (TrimSpace c) n, m1)\<rparr>" by simp
  qed
  have m2': "targetType = ''merge_pr'' \<and> repo = [] \<and> 0 < n \<and>
         GetLastPRs m1 sessionID (t_lookup clk) = (m1, refs, True) \<and>
         matchesOf refs n = [c] \<and> c \<noteq> [] \<and>
         MergePR (mcp srv) token c n (mergeMethod mergedArgs) \<noteq> None \<longrightarrow>
           out = (respond m1 replyMergeFailed ''error'')
                   \<lparr>out_call := Some (CallMergePR token c n (mergeMethod mergedArgs), m1)\<rparr>"
    for refs c
  proof (intro impI, elim conjE)
    assume T: "targetType = ''merge_pr''" and rn: "repo = []" and n: "0 < n"
      and g: "GetLastPRs m1 sessionID (t_lookup clk) = (m1, refs, True)"
      and one: "matchesOf refs n = [c]" and c: "c \<noteq> []"
      and f: "MergePR (mcp srv) token c n (mergeMethod mergedArgs) \<noteq> None"
    have r0: "TrimSpace (stringArg mergedArgs ''repo'') = []" using r rn by simp
    have n': "0 < prNumberOf mergedArgs" using n assms(6) by simp
    have a: "autoResolve m1 sessionID
               (ownerRepo srv m1 sessionID (TrimSpace (stringArg mergedArgs ''repo'')))
               (prNumberOf mergedArgs) (t_lookup clk) = (m1, Inr c)"
      using merge_bare_number[OF r0 n' g, of srv] one assms(6) by auto
    have f': "MergePR (mcp srv) (getGitHubToken srv sessionID) c (prNumberOf mergedArgs)
                (mergeMethod mergedArgs) \<noteq> None"
      using f assms(3,6) by simp
    from merge_ready_failed[OF a c n' tok f'] assms(3,6) u T assms(5)
    show "out = (respond m1 replyMergeFailed ''error'')
                   \<lparr>out_call := Some (CallMergePR token c n (mergeMethod mergedArgs), m1)\<rparr>"
      by simp
  qed
  have s1: "m1 = fst (GetPendingIntent m sessionID (t_pending clk))"
    by (rule mergePending_store_eq[OF assms(1)])
  have s2: "lastPRsBySession m1 = lastPRsBySession m"
    by (rule lastPRs_mergePending[OF assms(1)])
  have s3: "pendingBySession m sessionID = None \<or>
        (\<exists>p. pendingBySession m sessionID = Some p \<and>
             t_pending clk - pi_UpdatedAt p \<le> pendingTTL) \<longrightarrow> m1 = m"
    using GetPendingIntent_store_kept[of m sessionID "t_pending clk"] s1 by simp
  have g: "out_call out = Some (made, m0) \<and> providerFailed (mcp srv) made \<longrightarrow>
          out_store out = m0
          \<and> out_intent out = Some \<lparr>ir_Type = ''error'', ir_Payload = None\<rparr>
          \<and> out_reply out \<in> {replyListFailed, replyCommentsFailed, replyMergeFailed}
          \<and> out_ok out" for made m0
    using failed_call_keeps_store[of srv clk m sessionID ci made m0] assms(5) by simp
  show ?thesis using l1 l2 c1 m1' c2 m2' s1 s2 s3 g by blast
qed

lemma stAsked_merge_list:
  "mergePending stAsked ''s_1'' ciListMine (t_pending clkEx) =
     (stAsked, ''list_prs_mine'', Map.empty)"
  by (simp add: mergePending_def GetPendingIntent_found[OF stAsked_pending] pendingTTL_def
      Minute_def clkEx_def ciListMine_def Let_def)

lemma argsInModel_empty: "argsInModel Map.empty"
  by (simp add: argsInModel_def stringArg_def asciiOnly_def)

lemma down_fails:
  "isl (ListUserPRs (mcp srvDown) t)" "isl (GetPRComments (mcp srvDown) t r k)"
  "MergePR (mcp srvDown) t r k me \<noteq> None"
  by (simp_all add: srvDown_def mcpDown_def)

theorem provider_failure_keeps_state_witness:
  "handleWithArgs srvDown clkEx stAsked ''s_1'' ciListMine =
     (respond stAsked replyListFailed ''error'')
       \<lparr>out_call := Some (CallListUserPRs ''tok'', stAsked)\<rparr>
   \<and> handleWithArgs srvDown clkEx stListed ''s_1'' (ciComments 9) =
     (respond stListed replyCommentsFailed ''error'')
       \<lparr>out_call := Some (CallGetPRComments ''tok'' ''A/x'' 9, stListed)\<rparr>
   \<and> handleWithArgs srvDown clkEx stAlice ''s_1'' ciMerge =
     (respond stAlice replyMergeFailed ''error'')
       \<lparr>out_call := Some (CallMergePR ''tok'' ''alice/widgets'' 9 ''merge'', stAlice)\<rparr>"
proof -
  have tk: "TrimSpace (getGitHubToken srvDown ''s_1'') \<noteq> []"
    by (simp add: token_srvUp trimmed_tok)
  have a: "handleWithArgs srvDown clkEx stAsked ''s_1'' ciListMine =
     (respond stAsked replyListFailed ''error'')
       \<lparr>out_call := Some (CallListUserPRs ''tok'', stAsked)\<rparr>"
    using provider_failure_keeps_state[OF stAsked_merge_list argsInModel_empty refl tk refl refl
        refl refl refl]
    by (simp add: token_srvUp down_fails)
  have n9: "prNumberOf [''pr_number'' \<mapsto> VFloat64 9] = 9"
    using prNumberOf_float[of 9] by simp
  have c: "GetLastPRs stListed ''s_1'' (t_lookup clkEx) = (stListed, refsEx, True)"
    using stListed_cache by (simp add: clkEx_def)
  have one: "matchesOf refsEx 9 = [''A/x'']" by (simp add: matchesOf_def refsEx_def)
  have b: "handleWithArgs srvDown clkEx stListed ''s_1'' (ciComments 9) =
     (respond stListed replyCommentsFailed ''error'')
       \<lparr>out_call := Some (CallGetPRComments ''tok'' ''A/x'' 9, stListed)\<rparr>"
    using provider_failure_keeps_state[OF stListed_merge argsInModel_number[OF fits_small(2)]
        refl tk refl refl refl refl refl] c one
    by (simp add: token_srvUp down_fails n9 no_repo_arg trimmed_tok)
  have mp: "mergePending stAlice ''s_1'' ciMerge (t_pending clkEx) =
      (stAlice, ''merge_pr'', ci_Args ciMerge)"
    using mergePending_none[OF stAlice_no_pending, of "''s_1''" ciMerge]
    by (simp add: ciMerge_def)
  have aim: "argsInModel (ci_Args ciMerge)"
    by (simp add: argsInModel_def ciMerge_def stringArg_def asciiOnly_def fitsInt_def
        int_of_float64_def)
  have nm: "prNumberOf (ci_Args ciMerge) = 9"
    by (simp add: prNumberOf_def ciMerge_def int_of_float64_def)
  have rm: "TrimSpace (stringArg (ci_Args ciMerge) ''repo'') = ''widgets''"
    by (simp add: ciMerge_def stringArg_def trimmed_names)
  have mm: "mergeMethod (ci_Args ciMerge) = ''merge''"
    by (simp add: mergeMethod_def ciMerge_def stringArg_def TrimSpace_Nil ToLower_def)
  have d: "handleWithArgs srvDown clkEx stAlice ''s_1'' ciMerge =
     (respond stAlice replyMergeFailed ''error'')
       \<lparr>out_call := Some (CallMergePR ''tok'' ''alice/widgets'' 9 ''merge'', stAlice)\<rparr>"
    using provider_failure_keeps_state[OF mp aim refl tk refl refl refl refl refl]
    by (simp add: token_srvUp down_fails nm rm mm stAlice_user trimmed_names)
  show ?thesis using a b d by simp
qed

end
